theory Spec2Isabelle
  imports Complex_Main "HOL-Library.Extended_Nat"
begin

section \<open>Numbers, randomness and observable effects\<close>

text \<open>
  The simulation is read over the real numbers: every formula of the program is read in
  exact arithmetic. Rounding, \<open>NaN\<close> and the infinities are outside that reading;
  where the simulation would produce them (an average over an empty population, a
  division by a zero time step) the definitions below say so, and the theorems exclude
  those inputs or the definitions branch on them. The two functions whose arguments
  range over arbitrary numbers, \<open>Agent.update\<close> and \<open>findParameterForPsi\<close>, are read a
  second time over numbers with \<open>NaN\<close>, the infinities and overflow, further down.

  \<open>Math.random()\<close> reads the next element of a stream of reals. The world carries the
  stream, the read position and the trace of observable effects: the lines written
  with \<open>console.log\<close> and the invocations of the caller's progress callback, in the
  order in which they happen. The trace is polymorphic in the type of the numbers that
  the lines carry.
\<close>

datatype 'n gevent =
    HighVarianceLog 'n 'n "'n list"
  | SearchLog string 'n string 'n 'n 'n 'n bool
  | OutOfReachLog 'n 'n 'n 'n
  | FoundLog string 'n 'n nat
  | AnalysisStartLog
  | ParamHeaderLog string bool 'n 'n
  | ParamResultLog string 'n 'n 'n
  | AnalysisDoneLog
  | ResultsTableLog "(string \<times> bool \<times> 'n \<times> 'n \<times> 'n) list"
  | ProgressCallback string nat nat

record 'n gworld =
  rng :: "nat \<Rightarrow> real"
  rng_pos :: nat
  trace :: "'n gevent list"

type_synonym event = "real gevent"

type_synonym world = "real gworld"

definition Math_random :: "world \<Rightarrow> real \<times> world" where
  "Math_random w = (rng w (rng_pos w), w\<lparr>rng_pos := rng_pos w + 1\<rparr>)"

definition console_log :: "'n gevent \<Rightarrow> 'n gworld \<Rightarrow> 'n gworld" where
  "console_log e w = w\<lparr>trace := trace w @ [e]\<rparr>"

section \<open>Agent (agent.js)\<close>

text \<open>
  The population is one array of agents, shared by the simulator and the society.
  An agent's \<open>neighbors\<close> are references to other agents of the same array; they are
  modelled as indices into the array, so that reading a neighbour's field reads the
  array as it is at that moment.
\<close>

record Agent =
  agent_id :: nat
  agent_x :: real
  agent_y :: real
  wealth :: real
  education :: real
  security :: real
  toleranceEconomic :: real
  tolerancePhysical :: real
  toleranceCultural :: real
  civicEnergy :: real
  permeability :: real
  democraticAdherence :: real
  positiveContacts :: real
  negativeContacts :: real
  neighbors :: "nat list"

record AgentDerivatives =
  dAlpha :: real
  dTauC :: real
  dSecurity :: real
  dPermeability :: real
  dCivicEnergy :: real

text \<open>The constructor: nine draws, in the order of the assignments.\<close>

definition new_Agent :: "nat \<Rightarrow> real \<Rightarrow> real \<Rightarrow> world \<Rightarrow> Agent \<times> world" where
  "new_Agent i x y w =
     (let (r1, w1) = Math_random w;
          (r2, w2) = Math_random w1;
          (r3, w3) = Math_random w2;
          (r4, w4) = Math_random w3;
          (r5, w5) = Math_random w4;
          (r6, w6) = Math_random w5;
          (r7, w7) = Math_random w6;
          (r8, w8) = Math_random w7;
          (r9, w9) = Math_random w8
      in (\<lparr> agent_id = i, agent_x = x, agent_y = y,
            wealth = r1, education = r2, security = r3,
            toleranceEconomic = r4 * 2 - 1, tolerancePhysical = r5 * 2 - 1,
            toleranceCultural = r6 * 2 - 1,
            civicEnergy = r7, permeability = r8, democraticAdherence = r9 * 2 - 1,
            positiveContacts = 0, negativeContacts = 0, neighbors = [] \<rparr>, w9))"

text \<open>
  \<open>getNeighborhoodAverage(property)\<close>: the property name is modelled by the field
  selector. An agent without neighbours averages over itself.
\<close>

definition getNeighborhoodAverage :: "Agent list \<Rightarrow> Agent \<Rightarrow> (Agent \<Rightarrow> real) \<Rightarrow> real" where
  "getNeighborhoodAverage agents a property =
     (if length (neighbors a) = 0 then property a
      else (let sum = foldl (\<lambda>acc j. acc + property (agents ! j)) 0 (neighbors a)
            in sum / real (length (neighbors a))))"

definition clamp :: "real \<Rightarrow> real \<Rightarrow> real \<Rightarrow> real" where
  "clamp v lo hi = max lo (min hi v)"

text \<open>\<open>Agent.update(derivatives, dt)\<close>: one Euler step, then the bounds.\<close>

definition Agent_update :: "Agent \<Rightarrow> AgentDerivatives \<Rightarrow> real \<Rightarrow> Agent" where
  "Agent_update a d dt =
     (let a1 = a\<lparr> democraticAdherence := democraticAdherence a + dAlpha d * dt \<rparr>;
          a2 = a1\<lparr> toleranceCultural := toleranceCultural a1 + dTauC d * dt \<rparr>;
          a3 = a2\<lparr> security := security a2 + dSecurity d * dt \<rparr>;
          a4 = a3\<lparr> permeability := permeability a3 + dPermeability d * dt \<rparr>;
          a5 = a4\<lparr> civicEnergy := civicEnergy a4 + dCivicEnergy d * dt \<rparr>;
          b1 = a5\<lparr> democraticAdherence := clamp (democraticAdherence a5) (-1) 1 \<rparr>;
          b2 = b1\<lparr> toleranceCultural := clamp (toleranceCultural b1) (-1) 1 \<rparr>;
          b3 = b2\<lparr> toleranceEconomic := clamp (toleranceEconomic b2) (-1) 1 \<rparr>;
          b4 = b3\<lparr> tolerancePhysical := clamp (tolerancePhysical b3) (-1) 1 \<rparr>;
          b5 = b4\<lparr> security := clamp (security b4) 0 1 \<rparr>;
          b6 = b5\<lparr> permeability := clamp (permeability b5) 0 1 \<rparr>;
          b7 = b6\<lparr> civicEnergy := clamp (civicEnergy b6) 0 1 \<rparr>
      in b7\<lparr> wealth := max 0 (wealth b7) \<rparr>)"

definition Agent_reset :: "Agent \<Rightarrow> world \<Rightarrow> Agent \<times> world" where
  "Agent_reset a w =
     (let (r1, w1) = Math_random w;
          (r2, w2) = Math_random w1;
          (r3, w3) = Math_random w2;
          (r4, w4) = Math_random w3;
          (r5, w5) = Math_random w4;
          (r6, w6) = Math_random w5;
          (r7, w7) = Math_random w6;
          (r8, w8) = Math_random w7;
          (r9, w9) = Math_random w8
      in (a\<lparr> wealth := r1, education := r2, security := r3,
              toleranceEconomic := r4 * 2 - 1, tolerancePhysical := r5 * 2 - 1,
              toleranceCultural := r6 * 2 - 1,
              civicEnergy := r7, permeability := r8, democraticAdherence := r9 * 2 - 1,
              positiveContacts := 0, negativeContacts := 0 \<rparr>, w9))"

section \<open>Society (society.js)\<close>

text \<open>
  The society object keeps a reference to the population array; its methods are
  modelled as functions of that array and of the record of macroscopic variables.
  The history is six arrays that grow together.
\<close>

record History =
  h_time :: "real list"
  h_orderParameter :: "real list"
  h_avgAlpha :: "real list"
  h_institutionalQuality :: "real list"
  h_polarization :: "real list"
  h_perceivedThreat :: "real list"

record Society =
  gini :: real
  precarity :: real
  diversity :: real
  institutionalQuality :: real
  polarization :: real
  perceivedThreat :: real
  externalThreat :: real
  history :: History

record MacroDerivatives =
  dQ :: real
  dPhi :: real
  dM :: real

definition empty_History :: History where
  "empty_History = \<lparr> h_time = [], h_orderParameter = [], h_avgAlpha = [],
     h_institutionalQuality = [], h_polarization = [], h_perceivedThreat = [] \<rparr>"

definition new_Society :: Society where
  "new_Society = \<lparr> gini = 0.3, precarity = 0.2, diversity = 0.5,
     institutionalQuality = 0.7, polarization = 0.2, perceivedThreat = 0.2,
     externalThreat = 0.2, history = empty_History \<rparr>"

text \<open>
  \<open>getAverage\<close> divides by the population size. For an empty population JavaScript
  yields \<open>NaN\<close>, which the model does not have: statements about averages are made
  for populations with at least one agent.
\<close>

definition getAverage :: "Agent list \<Rightarrow> (Agent \<Rightarrow> real) \<Rightarrow> real" where
  "getAverage agents property =
     foldl (\<lambda>acc a. acc + property a) 0 agents / real (length agents)"

definition getStdDev :: "Agent list \<Rightarrow> (Agent \<Rightarrow> real) \<Rightarrow> real" where
  "getStdDev agents property =
     (let avg = getAverage agents property;
          squaredDiffs = foldl (\<lambda>acc a. acc + (property a - avg) * (property a - avg)) 0 agents
      in sqrt (squaredDiffs / real (length agents)))"

text \<open>The Gini sum over the sorted wealths, from index \<open>i\<close> on.\<close>

fun giniSum :: "nat \<Rightarrow> nat \<Rightarrow> real list \<Rightarrow> real" where
  "giniSum n i [] = 0"
| "giniSum n i (wl # rest) = (2 * (real i + 1) - real n - 1) * wl + giniSum n (i + 1) rest"

definition calculateGini :: "Agent list \<Rightarrow> real" where
  "calculateGini agents =
     (let n = length agents;
          wealths = sort (map wealth agents);
          totalWealth = foldl (\<lambda>s wl. s + wl) 0 wealths
      in if totalWealth = 0 then 0
         else giniSum n 0 wealths / (real n * totalWealth))"

definition getOrderParameter :: "Agent list \<Rightarrow> Society \<Rightarrow> real" where
  "getOrderParameter agents soc =
     (let avgAlpha = getAverage agents democraticAdherence
      in avgAlpha * institutionalQuality soc)"

text \<open>
  \<open>Society.update(derivatives, dt)\<close>. The Gini coefficient and the precarity are
  recomputed from the population as it is when the method runs.
\<close>

definition Society_update :: "Agent list \<Rightarrow> Society \<Rightarrow> MacroDerivatives \<Rightarrow> real \<Rightarrow> Society" where
  "Society_update agents soc d dt =
     (let s1 = soc\<lparr> institutionalQuality := institutionalQuality soc + dQ d * dt \<rparr>;
          s2 = s1\<lparr> polarization := polarization s1 + dPhi d * dt \<rparr>;
          s3 = s2\<lparr> perceivedThreat := perceivedThreat s2 + dM d * dt \<rparr>;
          s4 = s3\<lparr> institutionalQuality := max 0 (min 1 (institutionalQuality s3)) \<rparr>;
          s5 = s4\<lparr> polarization := max 0 (min 1 (polarization s4)) \<rparr>;
          s6 = s5\<lparr> perceivedThreat := max 0 (min 1 (perceivedThreat s5)) \<rparr>;
          s7 = s6\<lparr> gini := calculateGini agents \<rparr>
      in s7\<lparr> precarity := 1 - getAverage agents security \<rparr>)"

definition History_shift :: "History \<Rightarrow> History" where
  "History_shift h = \<lparr> h_time = tl (h_time h), h_orderParameter = tl (h_orderParameter h),
     h_avgAlpha = tl (h_avgAlpha h),
     h_institutionalQuality = tl (h_institutionalQuality h),
     h_polarization = tl (h_polarization h),
     h_perceivedThreat = tl (h_perceivedThreat h) \<rparr>"

definition addToHistory :: "Agent list \<Rightarrow> Society \<Rightarrow> real \<Rightarrow> Society" where
  "addToHistory agents soc t =
     (let h = history soc;
          h1 = \<lparr> h_time = h_time h @ [t],
                 h_orderParameter = h_orderParameter h @ [getOrderParameter agents soc],
                 h_avgAlpha = h_avgAlpha h @ [getAverage agents democraticAdherence],
                 h_institutionalQuality = h_institutionalQuality h @ [institutionalQuality soc],
                 h_polarization = h_polarization h @ [polarization soc],
                 h_perceivedThreat = h_perceivedThreat h @ [perceivedThreat soc] \<rparr>;
          maxHistoryLength = 1000
      in soc\<lparr> history := (if length (h_time h1) > maxHistoryLength then History_shift h1 else h1) \<rparr>)"

section \<open>Parameters and the equations (equations.js)\<close>

text \<open>
  A \<open>Parameters\<close> object has the 30 fields its constructor assigns. Like every
  JavaScript object it can be given further own properties by assignment
  (\<open>other_props\<close>), and it inherits the properties of \<open>Object.prototype\<close>.
\<close>

record Parameters =
  beta1 :: real
  beta2 :: real
  beta3 :: real
  beta4 :: real
  gamma1 :: real
  gamma2 :: real
  gamma3 :: real
  gamma4 :: real
  delta1 :: real
  delta2 :: real
  delta3 :: real
  delta4 :: real
  delta5 :: real
  eta1 :: real
  eta2 :: real
  eta3 :: real
  lambda1 :: real
  lambda2 :: real
  lambda3 :: real
  lambda4 :: real
  mu1 :: real
  mu2 :: real
  mu3 :: real
  nu1 :: real
  nu2 :: real
  nu3 :: real
  rho1 :: real
  rho2 :: real
  rho3 :: real
  rho4 :: real
  other_props :: "string \<Rightarrow> real option"

definition new_Parameters :: Parameters where
  "new_Parameters = \<lparr>
     beta1 = 0.5, beta2 = 0.3, beta3 = 0.4, beta4 = 0.6,
     gamma1 = 0.3, gamma2 = 0.4, gamma3 = 0.5, gamma4 = 0.3,
     delta1 = 0.4, delta2 = 0.3, delta3 = 0.2, delta4 = 0.3, delta5 = 0.2,
     eta1 = 0.3, eta2 = 0.4, eta3 = 0.3,
     lambda1 = 0.4, lambda2 = 0.3, lambda3 = 0.3, lambda4 = 0.2,
     mu1 = 0.3, mu2 = 0.4, mu3 = 0.2,
     nu1 = 0.5, nu2 = 0.3, nu3 = 0.4,
     rho1 = 0.5, rho2 = 0.4, rho3 = 0.3, rho4 = 0.2,
     other_props = (\<lambda>name. None) \<rparr>"

definition computeDemocraticAdherence :: "Agent list \<Rightarrow> Agent \<Rightarrow> Society \<Rightarrow> Parameters \<Rightarrow> real" where
  "computeDemocraticAdherence agents a soc params =
     (let avgAlpha = getNeighborhoodAverage agents a democraticAdherence;
          socialInfluence = permeability a * avgAlpha;
          educationEffect = beta1 params * education a * (1 - democraticAdherence a);
          insecurityErosion = - beta2 params * (1 - security a) * democraticAdherence a;
          institutionalEffect = beta3 params * institutionalQuality soc;
          fearEffect = - beta4 params * perceivedThreat soc * permeability a
      in socialInfluence + educationEffect + insecurityErosion + institutionalEffect + fearEffect)"

definition computeCulturalTolerance :: "Agent \<Rightarrow> Society \<Rightarrow> Parameters \<Rightarrow> real" where
  "computeCulturalTolerance a soc params =
     (let educationOpenness = gamma1 params * education a * (1 - toleranceCultural a);
          positiveContact = gamma2 params * positiveContacts a * (1 - toleranceCultural a);
          negativeContact = - gamma3 params * negativeContacts a * (1 + toleranceCultural a);
          identityRetreat = - gamma4 params * (1 - security a) * polarization soc * toleranceCultural a
      in educationOpenness + positiveContact + negativeContact + identityRetreat)"

definition computeSecurity :: "Agent list \<Rightarrow> Agent \<Rightarrow> Society \<Rightarrow> Parameters \<Rightarrow> real" where
  "computeSecurity agents a soc params =
     (let avgWealth = getAverage agents wealth;
          relativeWealth = (if avgWealth > 0 then wealth a / avgWealth else 1);
          wealthEffect = delta1 params * relativeWealth;
          institutionalSafety = delta2 params * institutionalQuality soc;
          precarityEffect = - delta3 params * precarity soc;
          anxiousClimate = - delta4 params * perceivedThreat soc;
          mediaContagion = - delta5 params * permeability a * polarization soc
      in wealthEffect + institutionalSafety + precarityEffect + anxiousClimate + mediaContagion)"

definition computePermeability :: "Agent \<Rightarrow> Society \<Rightarrow> Parameters \<Rightarrow> real" where
  "computePermeability a soc params =
     (let criticalThinking = - eta1 params * education a * permeability a;
          vulnerability = eta2 params * (1 - security a) * (1 - permeability a);
          mediaPressure = eta3 params * polarization soc * (1 - permeability a)
      in criticalThinking + vulnerability + mediaPressure)"

definition computeCivicEnergy :: "Agent list \<Rightarrow> Agent \<Rightarrow> Society \<Rightarrow> Parameters \<Rightarrow> real" where
  "computeCivicEnergy agents a soc params =
     (let avgEnergy = getNeighborhoodAverage agents a civicEnergy;
          availability = lambda1 params * security a * (1 - civicEnergy a);
          survivalExhaustion = - lambda2 params * (1 - security a);
          socialDrive = lambda3 params * avgEnergy;
          institutionalDiscouragement = - lambda4 params * (1 - institutionalQuality soc)
      in availability + survivalExhaustion + socialDrive + institutionalDiscouragement)"

definition computeInstitutionalQuality :: "Agent list \<Rightarrow> Society \<Rightarrow> Parameters \<Rightarrow> real" where
  "computeInstitutionalQuality agents soc params =
     (let avgAlpha = getAverage agents democraticAdherence;
          avgEnergy = getAverage agents civicEnergy;
          democraticEngagement = mu1 params * avgAlpha * avgEnergy;
          authoritarianCapture = - mu2 params * (1 - avgAlpha) * polarization soc;
          corruptionByInequality = - mu3 params * gini soc
      in democraticEngagement + authoritarianCapture + corruptionByInequality)"

definition computePolarization :: "Agent list \<Rightarrow> Society \<Rightarrow> Parameters \<Rightarrow> real" where
  "computePolarization agents soc params =
     (let opinionVariance = getStdDev agents democraticAdherence;
          avgEducation = getAverage agents education;
          opinionDivergence = nu1 params * opinionVariance;
          economicFracture = nu2 params * gini soc;
          institutionalMediation = - nu3 params * avgEducation * institutionalQuality soc
      in opinionDivergence + economicFracture + institutionalMediation)"

definition computePerceivedThreat :: "Agent list \<Rightarrow> Society \<Rightarrow> Parameters \<Rightarrow> real" where
  "computePerceivedThreat agents soc params =
     (let avgTolerance = getAverage agents toleranceCultural;
          avgSecurity = getAverage agents security;
          realThreats = rho1 params * externalThreat soc;
          amplification = rho2 params * polarization soc * (1 - institutionalQuality soc);
          xenophobia = rho3 params * diversity soc * (1 - avgTolerance);
          collectiveResilience = - rho4 params * avgSecurity
      in realThreats + amplification + xenophobia + collectiveResilience)"

definition computeAgentDerivatives :: "Agent list \<Rightarrow> Agent \<Rightarrow> Society \<Rightarrow> Parameters \<Rightarrow> AgentDerivatives" where
  "computeAgentDerivatives agents a soc params =
     \<lparr> dAlpha = computeDemocraticAdherence agents a soc params,
       dTauC = computeCulturalTolerance a soc params,
       dSecurity = computeSecurity agents a soc params,
       dPermeability = computePermeability a soc params,
       dCivicEnergy = computeCivicEnergy agents a soc params \<rparr>"

definition computeMacroDerivatives :: "Agent list \<Rightarrow> Society \<Rightarrow> Parameters \<Rightarrow> MacroDerivatives" where
  "computeMacroDerivatives agents soc params =
     \<lparr> dQ = computeInstitutionalQuality agents soc params,
       dPhi = computePolarization agents soc params,
       dM = computePerceivedThreat agents soc params \<rparr>"

text \<open>
  \<open>name in params\<close> and \<open>params[name] = value\<close>, for a property name given as a string.
  The \<open>in\<close> operator follows the prototype chain, so it also holds of the names every
  object inherits from \<open>Object.prototype\<close>. Assigning to one of the 30 fields changes
  the field; assigning to any other name creates (or overwrites) an own property of
  that name, except for \<open>__proto__\<close>, whose inherited setter ignores a number.
\<close>

definition Parameters_fields :: "string list" where
  "Parameters_fields =
     [''beta1'', ''beta2'', ''beta3'', ''beta4'',
      ''gamma1'', ''gamma2'', ''gamma3'', ''gamma4'',
      ''delta1'', ''delta2'', ''delta3'', ''delta4'', ''delta5'',
      ''eta1'', ''eta2'', ''eta3'',
      ''lambda1'', ''lambda2'', ''lambda3'', ''lambda4'',
      ''mu1'', ''mu2'', ''mu3'',
      ''nu1'', ''nu2'', ''nu3'',
      ''rho1'', ''rho2'', ''rho3'', ''rho4'']"

definition Object_prototype_names :: "string list" where
  "Object_prototype_names =
     [''constructor'', ''__defineGetter__'', ''__defineSetter__'', ''hasOwnProperty'',
      ''__lookupGetter__'', ''__lookupSetter__'', ''isPrototypeOf'',
      ''propertyIsEnumerable'', ''toString'', ''valueOf'', ''__proto__'',
      ''toLocaleString'']"

definition has_property :: "string \<Rightarrow> Parameters \<Rightarrow> bool" where
  "has_property name p =
     (List.member Parameters_fields name \<or> other_props p name \<noteq> None \<or>
      List.member Object_prototype_names name)"

definition assign_property :: "Parameters \<Rightarrow> string \<Rightarrow> real \<Rightarrow> Parameters" where
  "assign_property p name v =
     (if name = ''beta1'' then p\<lparr> beta1 := v \<rparr>
      else if name = ''beta2'' then p\<lparr> beta2 := v \<rparr>
      else if name = ''beta3'' then p\<lparr> beta3 := v \<rparr>
      else if name = ''beta4'' then p\<lparr> beta4 := v \<rparr>
      else if name = ''gamma1'' then p\<lparr> gamma1 := v \<rparr>
      else if name = ''gamma2'' then p\<lparr> gamma2 := v \<rparr>
      else if name = ''gamma3'' then p\<lparr> gamma3 := v \<rparr>
      else if name = ''gamma4'' then p\<lparr> gamma4 := v \<rparr>
      else if name = ''delta1'' then p\<lparr> delta1 := v \<rparr>
      else if name = ''delta2'' then p\<lparr> delta2 := v \<rparr>
      else if name = ''delta3'' then p\<lparr> delta3 := v \<rparr>
      else if name = ''delta4'' then p\<lparr> delta4 := v \<rparr>
      else if name = ''delta5'' then p\<lparr> delta5 := v \<rparr>
      else if name = ''eta1'' then p\<lparr> eta1 := v \<rparr>
      else if name = ''eta2'' then p\<lparr> eta2 := v \<rparr>
      else if name = ''eta3'' then p\<lparr> eta3 := v \<rparr>
      else if name = ''lambda1'' then p\<lparr> lambda1 := v \<rparr>
      else if name = ''lambda2'' then p\<lparr> lambda2 := v \<rparr>
      else if name = ''lambda3'' then p\<lparr> lambda3 := v \<rparr>
      else if name = ''lambda4'' then p\<lparr> lambda4 := v \<rparr>
      else if name = ''mu1'' then p\<lparr> mu1 := v \<rparr>
      else if name = ''mu2'' then p\<lparr> mu2 := v \<rparr>
      else if name = ''mu3'' then p\<lparr> mu3 := v \<rparr>
      else if name = ''nu1'' then p\<lparr> nu1 := v \<rparr>
      else if name = ''nu2'' then p\<lparr> nu2 := v \<rparr>
      else if name = ''nu3'' then p\<lparr> nu3 := v \<rparr>
      else if name = ''rho1'' then p\<lparr> rho1 := v \<rparr>
      else if name = ''rho2'' then p\<lparr> rho2 := v \<rparr>
      else if name = ''rho3'' then p\<lparr> rho3 := v \<rparr>
      else if name = ''rho4'' then p\<lparr> rho4 := v \<rparr>
      else if name = ''__proto__'' then p
      else p\<lparr> other_props := (other_props p)(name := Some v) \<rparr>)"

section \<open>Simulator (simulator.js)\<close>

record Simulator =
  sim_numAgents :: nat
  sim_agents :: "Agent list"
  sim_society :: Society
  sim_parameters :: Parameters
  sim_time :: real
  sim_dt :: real
  sim_running :: bool

text \<open>
  The agents are created with identifiers \<open>0, 1, ...\<close> in array order, so an agent's
  identifier is its index in the array. \<open>scale\<close> is the factor applied to the two
  position draws (0.5 in the simulator, 1 in the sensitivity module).
\<close>

fun createAgents :: "real \<Rightarrow> nat \<Rightarrow> nat \<Rightarrow> world \<Rightarrow> Agent list \<times> world" where
  "createAgents scale i 0 w = ([], w)"
| "createAgents scale i (Suc n) w =
     (let (rx, w1) = Math_random w;
          (ry, w2) = Math_random w1;
          (a, w3) = new_Agent i (rx * scale) (ry * scale) w2;
          (rest, w4) = createAgents scale (i + 1) n w3
      in (a # rest, w4))"

definition distance :: "Agent \<Rightarrow> Agent \<Rightarrow> real" where
  "distance a other =
     (let dx = agent_x a - agent_x other;
          dy = agent_y a - agent_y other
      in sqrt (dx * dx + dy * dy))"

text \<open>
  The neighbours of one agent: the others within the radius, in array order; if there
  is none, the five nearest others (a stable sort by distance).
\<close>

definition neighborsOf :: "real \<Rightarrow> Agent list \<Rightarrow> Agent \<Rightarrow> nat list" where
  "neighborsOf neighborhoodRadius agents a =
     (let inRadius = filter (\<lambda>other. agent_id a \<noteq> agent_id other \<and>
                                     distance a other < neighborhoodRadius) agents
      in if length inRadius = 0 then
           (let k = 5;
                nearest = take k (sort_key (distance a)
                            (filter (\<lambda>other. agent_id other \<noteq> agent_id a) agents))
            in map agent_id nearest)
         else map agent_id inRadius)"

definition setupNeighborhoods :: "real \<Rightarrow> Agent list \<Rightarrow> Agent list" where
  "setupNeighborhoods neighborhoodRadius agents =
     map (\<lambda>a. a\<lparr> neighbors := neighborsOf neighborhoodRadius agents a \<rparr>) agents"

definition new_Simulator :: "nat \<Rightarrow> world \<Rightarrow> Simulator \<times> world" where
  "new_Simulator numAgents w =
     (let (agents0, w1) = createAgents 0.5 0 numAgents w;
          agents = setupNeighborhoods 0.1 agents0
      in (\<lparr> sim_numAgents = numAgents, sim_agents = agents, sim_society = new_Society,
            sim_parameters = new_Parameters, sim_time = 0, sim_dt = 0.01,
            sim_running = False \<rparr>, w1))"

text \<open>
  The contact pass visits the agents in array order. It writes only the two contact
  fields of the agent it visits.
\<close>

fun simulateInterculturalContacts :: "Agent list \<Rightarrow> Society \<Rightarrow> world \<Rightarrow> Agent list \<times> world" where
  "simulateInterculturalContacts [] soc w = ([], w)"
| "simulateInterculturalContacts (a # rest) soc w =
     (let contactProbability = diversity soc * 0.1;
          a0 = a\<lparr> positiveContacts := 0, negativeContacts := 0 \<rparr>;
          (r, w1) = Math_random w;
          (a1, w2) =
            (if r < contactProbability then
               (let (r2, w') = Math_random w1
                in if toleranceCultural a0 > 0
                   then (a0\<lparr> positiveContacts := r2 * 0.5 \<rparr>, w')
                   else (a0\<lparr> negativeContacts := r2 * 0.5 \<rparr>, w'))
             else (a0, w1));
          (rest', w3) = simulateInterculturalContacts rest soc w2
      in (a1 # rest', w3))"

text \<open>
  The update loop \<open>for (i = 0; i < agents.length; i++) agents[i].update(agentDerivatives[i], dt)\<close>
  writes the array in place, one index after the other.
\<close>

definition updateAgents :: "Agent list \<Rightarrow> AgentDerivatives list \<Rightarrow> real \<Rightarrow> Agent list" where
  "updateAgents agents agentDerivatives dt =
     fold (\<lambda>i ags. ags[i := Agent_update (ags ! i) (agentDerivatives ! i) dt])
       [0..<length agents] agents"

text \<open>
  \<open>Simulator.step()\<close>. With a zero time step the quotient \<open>time / dt\<close> is not a finite
  number and the history test fails.
\<close>

definition step :: "Simulator \<Rightarrow> world \<Rightarrow> Simulator \<times> world" where
  "step sim w =
     (let (agents1, w1) = simulateInterculturalContacts (sim_agents sim) (sim_society sim) w;
          agentDerivatives =
            map (\<lambda>a. computeAgentDerivatives agents1 a (sim_society sim) (sim_parameters sim)) agents1;
          macroDerivatives = computeMacroDerivatives agents1 (sim_society sim) (sim_parameters sim);
          agents2 = updateAgents agents1 agentDerivatives (sim_dt sim);
          society2 = Society_update agents2 (sim_society sim) macroDerivatives (sim_dt sim);
          time2 = sim_time sim + sim_dt sim;
          society3 = (if sim_dt sim \<noteq> 0 \<and> \<lfloor>time2 / sim_dt sim\<rfloor> mod 10 = 0
                      then addToHistory agents2 society2 time2 else society2)
      in (sim\<lparr> sim_agents := agents2, sim_society := society3, sim_time := time2 \<rparr>, w1))"

definition setParameter :: "Simulator \<Rightarrow> string \<Rightarrow> real \<Rightarrow> Simulator" where
  "setParameter sim param v =
     (if has_property param (sim_parameters sim)
      then sim\<lparr> sim_parameters := assign_property (sim_parameters sim) param v \<rparr>
      else sim)"

section \<open>Sensitivity analysis (sensitivity.js)\<close>

subsection \<open>One realization\<close>

text \<open>
  \<open>Math.floor(tMax / dt)\<close> as the bound of \<open>for (step = 0; step < numSteps; step++)\<close>.
  With a zero time step the quotient is plus infinity for a positive \<open>tMax\<close> (the loop is
  then bounded by nothing but its early exit); for any other \<open>tMax\<close> it is minus infinity
  or \<open>NaN\<close>, and the loop body never runs. A negative bound also runs the body zero times.
\<close>

definition numStepsOf :: "real \<Rightarrow> real \<Rightarrow> enat" where
  "numStepsOf tMax dt =
     (if dt = 0 then (if tMax > 0 then \<infinity> else 0)
      else enat (nat \<lfloor>tMax / dt\<rfloor>))"

type_synonym realization_state = "Agent list \<times> Society \<times> real"

text \<open>The body of the time loop up to and including \<open>time += dt\<close>.\<close>

definition realization_body ::
  "Parameters \<Rightarrow> real \<Rightarrow> realization_state \<times> world \<Rightarrow> realization_state \<times> world" where
  "realization_body params dt sw =
     (case sw of ((agents, society, time), w) \<Rightarrow>
        (let (agents1, w1) = simulateInterculturalContacts agents society w;
             agentDerivatives = map (\<lambda>a. computeAgentDerivatives agents1 a society params) agents1;
             macroDerivatives = computeMacroDerivatives agents1 society params;
             agents2 = updateAgents agents1 agentDerivatives dt;
             society2 = Society_update agents2 society macroDerivatives dt
         in ((agents2, society2, time + dt), w1)))"

text \<open>The early-exit test at the end of the loop body.\<close>

definition earlyStop :: "realization_state \<Rightarrow> bool" where
  "earlyStop st =
     (case st of (agents, society, time) \<Rightarrow>
        (let psi = getOrderParameter agents society
         in institutionalQuality society \<le> 0.05 \<or> psi \<ge> 0.95))"

partial_function (option) realization_loop ::
  "Parameters \<Rightarrow> real \<Rightarrow> enat \<Rightarrow> nat \<Rightarrow> realization_state \<times> world
     \<Rightarrow> (realization_state \<times> world) option" where
  "realization_loop params dt numSteps stepNo sw =
     (if enat stepNo < numSteps then
        (let sw' = realization_body params dt sw
         in if earlyStop (fst sw') then Some sw'
            else realization_loop params dt numSteps (stepNo + 1) sw')
      else Some sw)"

definition initialRealization :: "nat \<Rightarrow> world \<Rightarrow> realization_state \<times> world" where
  "initialRealization numAgents w =
     (let (agents0, w1) = createAgents 1 0 numAgents w;
          agents = setupNeighborhoods 0.2 agents0
      in ((agents, new_Society, 0), w1))"

definition singleRealization ::
  "Parameters \<Rightarrow> real \<Rightarrow> real \<Rightarrow> nat \<Rightarrow> world \<Rightarrow> (real \<times> world) option" where
  "singleRealization params tMax dt numAgents w =
     (let numSteps = numStepsOf tMax dt
      in case realization_loop params dt numSteps 0 (initialRealization numAgents w) of
           None \<Rightarrow> None
         | Some ((agents, society, time), w') \<Rightarrow> Some (getOrderParameter agents society, w'))"

subsection \<open>Averaging over realizations\<close>

fun realizations ::
  "Parameters \<Rightarrow> real \<Rightarrow> real \<Rightarrow> nat \<Rightarrow> nat \<Rightarrow> world \<Rightarrow> (real list \<times> world) option" where
  "realizations params tMax dt numAgents 0 w = Some ([], w)"
| "realizations params tMax dt numAgents (Suc k) w =
     (case singleRealization params tMax dt numAgents w of
        None \<Rightarrow> None
      | Some (psi, w1) \<Rightarrow>
          (case realizations params tMax dt numAgents k w1 of
             None \<Rightarrow> None
           | Some (psiValues, w2) \<Rightarrow> Some (psi # psiValues, w2)))"

definition psiAverage :: "real list \<Rightarrow> nat \<Rightarrow> real" where
  "psiAverage psiValues numRealizations =
     foldl (\<lambda>sum val. sum + val) 0 psiValues / real numRealizations"

definition psiStdDev :: "real list \<Rightarrow> nat \<Rightarrow> real" where
  "psiStdDev psiValues numRealizations =
     (let avgPsi = psiAverage psiValues numRealizations;
          variance = foldl (\<lambda>sum val. sum + (val - avgPsi) ^ 2) 0 psiValues / real numRealizations
      in sqrt variance)"

text \<open>
  \<open>simulateToSteadyState(params, tMax, dt, numAgents, numRealizations)\<close>. The last
  argument is optional in the source, with default 10; every call in the repository
  leaves it out.
\<close>

definition simulateToSteadyState ::
  "Parameters \<Rightarrow> real \<Rightarrow> real \<Rightarrow> nat \<Rightarrow> nat \<Rightarrow> world \<Rightarrow> (real \<times> world) option" where
  "simulateToSteadyState params tMax dt numAgents numRealizations w =
     (case realizations params tMax dt numAgents numRealizations w of
        None \<Rightarrow> None
      | Some (psiValues, w1) \<Rightarrow>
          (let avgPsi = psiAverage psiValues numRealizations;
               stdDev = psiStdDev psiValues numRealizations;
               w2 = (if stdDev > 0.05
                     then console_log (HighVarianceLog stdDev avgPsi psiValues) w1
                     else w1)
           in Some (avgPsi, w2)))"

subsection \<open>The threshold search\<close>

text \<open>
  Every evaluation of the order parameter in \<open>findParameterForPsi\<close> has the form
  \<open>params[paramName] = p; simulateToSteadyState(params, 100, 0.02, 75)\<close> on a private copy
  of the base parameters. The search is written over that evaluation, an effectful
  function of the parameter value; \<open>findParameterForPsi\<close> below instantiates it.
\<close>

type_synonym evaluator = "real \<Rightarrow> world \<Rightarrow> (real \<times> world) option"

definition satisfiesCondition :: "real \<Rightarrow> real \<Rightarrow> real \<Rightarrow> bool" where
  "satisfiesCondition targetPsi tolerance psiMid =
     (if targetPsi = 0 then psiMid \<le> 0 + tolerance
      else (psiMid \<ge> targetPsi - tolerance \<and> psiMid \<le> targetPsi + tolerance))"

type_synonym bisection_state = "real \<times> real \<times> real \<times> nat"

function bisection ::
  "evaluator \<Rightarrow> real \<Rightarrow> real \<Rightarrow> string \<Rightarrow> bool \<Rightarrow> real \<Rightarrow> real \<Rightarrow> real \<Rightarrow> nat \<Rightarrow> world
     \<Rightarrow> (bisection_state \<times> world) option" where
  "bisection ev targetPsi tolerance extremum isIncreasing low high bestCandidate iteration w =
     (if iteration < 30 \<and> high - low > tolerance * 0.01 then
        (let mid = (low + high) / 2
         in case ev mid w of
              None \<Rightarrow> None
            | Some (psiMid, w1) \<Rightarrow>
                (let best' =
                       (if satisfiesCondition targetPsi tolerance psiMid then
                          (if extremum = ''min'' \<and> mid < bestCandidate then mid
                           else if extremum = ''max'' \<and> mid > bestCandidate then mid
                           else bestCandidate)
                        else bestCandidate);
                     low' = (if isIncreasing then (if psiMid < targetPsi then mid else low)
                             else (if psiMid < targetPsi then low else mid));
                     high' = (if isIncreasing then (if psiMid < targetPsi then high else mid)
                              else (if psiMid < targetPsi then mid else high))
                 in bisection ev targetPsi tolerance extremum isIncreasing low' high' best'
                      (iteration + 1) w1))
      else Some ((low, high, bestCandidate, iteration), w))"
  by pat_completeness auto
termination
  by (relation "measure (\<lambda>(ev, targetPsi, tolerance, extremum, isIncreasing, low, high,
                            bestCandidate, iteration, w). 30 - iteration)") auto

definition outOfReachBound :: "string \<Rightarrow> bool \<Rightarrow> 'n \<Rightarrow> 'n \<Rightarrow> 'n" where
  "outOfReachBound extremum isIncreasing pMin pMax =
     (if extremum = ''min'' then (if isIncreasing then pMin else pMax)
      else (if isIncreasing then pMax else pMin))"

definition findParameterForPsi_with ::
  "evaluator \<Rightarrow> string \<Rightarrow> real \<Rightarrow> real \<Rightarrow> real \<Rightarrow> real \<Rightarrow> string \<Rightarrow> world
     \<Rightarrow> (real \<times> world) option" where
  "findParameterForPsi_with ev paramName targetPsi pMin pMax tolerance extremum w =
     (case ev pMin w of
        None \<Rightarrow> None
      | Some (psiMin, w1) \<Rightarrow>
     (case ev pMax w1 of
        None \<Rightarrow> None
      | Some (psiMax, w2) \<Rightarrow>
     (let isIncreasing = psiMax > psiMin;
          w3 = console_log (SearchLog paramName targetPsi extremum pMin psiMin pMax psiMax
                              isIncreasing) w2;
          minPsiValue = min psiMin psiMax;
          maxPsiValue = max psiMin psiMax
      in if targetPsi < minPsiValue \<or> targetPsi > maxPsiValue then
           (let result = outOfReachBound extremum isIncreasing pMin pMax
            in Some (result,
                     console_log (OutOfReachLog targetPsi minPsiValue maxPsiValue result) w3))
         else
           (case bisection ev targetPsi tolerance extremum isIncreasing pMin pMax
                   (if extremum = ''min'' then pMax else pMin) 0 w3 of
              None \<Rightarrow> None
            | Some ((low, high, bestCandidate, iteration), w4) \<Rightarrow>
           (let finalMid = (low + high) / 2
            in case ev finalMid w4 of
                 None \<Rightarrow> None
               | Some (psiFinal, w5) \<Rightarrow>
                   (let result =
                          (if \<bar>psiFinal - targetPsi\<bar> < tolerance then
                             (if extremum = ''min'' then min bestCandidate finalMid
                              else max bestCandidate finalMid)
                           else (if bestCandidate \<noteq> (if extremum = ''min'' then high else low)
                                 then bestCandidate else finalMid))
                    in Some (result,
                             console_log (FoundLog paramName result psiFinal iteration) w5)))))))"

definition psiAt :: "Parameters \<Rightarrow> string \<Rightarrow> evaluator" where
  "psiAt baseParams paramName p w =
     simulateToSteadyState (assign_property baseParams paramName p) 100 0.02 75 10 w"

definition findParameterForPsi ::
  "string \<Rightarrow> real \<Rightarrow> Parameters \<Rightarrow> real \<Rightarrow> real \<Rightarrow> real \<Rightarrow> string \<Rightarrow> world
     \<Rightarrow> (real \<times> world) option" where
  "findParameterForPsi paramName targetPsi baseParams pMin pMax tolerance extremum w =
     findParameterForPsi_with (psiAt baseParams paramName) paramName targetPsi pMin pMax
       tolerance extremum w"

subsection \<open>The sweep over the tunable parameters\<close>

record ParamSpec =
  param_key :: string
  param_min :: real
  param_max :: real
  virtuous :: bool

definition parametersToAnalyze :: "ParamSpec list" where
  "parametersToAnalyze =
     [\<lparr> param_key = ''beta1'', param_min = 0, param_max = 2, virtuous = True \<rparr>,
      \<lparr> param_key = ''beta2'', param_min = 0, param_max = 2, virtuous = False \<rparr>,
      \<lparr> param_key = ''beta3'', param_min = 0, param_max = 2, virtuous = True \<rparr>,
      \<lparr> param_key = ''beta4'', param_min = 0, param_max = 2, virtuous = False \<rparr>,
      \<lparr> param_key = ''mu1'', param_min = 0, param_max = 1, virtuous = True \<rparr>,
      \<lparr> param_key = ''mu2'', param_min = 0, param_max = 1, virtuous = False \<rparr>,
      \<lparr> param_key = ''mu3'', param_min = 0, param_max = 1, virtuous = False \<rparr>]"

record Zone =
  autocratic :: real
  democratic :: real
  zone_min :: real
  zone_max :: real
  zone_virtuous :: bool

type_synonym progress_callback = "string \<Rightarrow> nat \<Rightarrow> nat \<Rightarrow> world \<Rightarrow> world"

text \<open>
  A callback that does nothing but leave a record of its invocation and arguments in
  the trace.
\<close>

definition recordProgress :: progress_callback where
  "recordProgress paramName current totalCount w =
     w\<lparr> trace := trace w @ [ProgressCallback paramName current totalCount] \<rparr>"

text \<open>The two searches of one parameter, in the order of the source.\<close>

definition searchPair ::
  "Parameters \<Rightarrow> ParamSpec \<Rightarrow> world \<Rightarrow> ((real \<times> real) \<times> world) option" where
  "searchPair baseParams param w =
     (if virtuous param then
        (case findParameterForPsi (param_key param) 0 baseParams (param_min param)
                (param_max param) 0.02 ''max'' w of
           None \<Rightarrow> None
         | Some (pAutocratic, w1) \<Rightarrow>
             (case findParameterForPsi (param_key param) 0.3 baseParams (param_min param)
                     (param_max param) 0.02 ''min'' w1 of
                None \<Rightarrow> None
              | Some (pDemocratic, w2) \<Rightarrow> Some ((pAutocratic, pDemocratic), w2)))
      else
        (case findParameterForPsi (param_key param) 0 baseParams (param_min param)
                (param_max param) 0.02 ''min'' w of
           None \<Rightarrow> None
         | Some (pAutocratic, w1) \<Rightarrow>
             (case findParameterForPsi (param_key param) 0.3 baseParams (param_min param)
                     (param_max param) 0.02 ''max'' w1 of
                None \<Rightarrow> None
              | Some (pDemocratic, w2) \<Rightarrow> Some ((pAutocratic, pDemocratic), w2))))"

fun analyzeLoop ::
  "Parameters \<Rightarrow> progress_callback option \<Rightarrow> nat \<Rightarrow> nat \<Rightarrow> ParamSpec list
     \<Rightarrow> (string \<times> Zone) list \<Rightarrow> world \<Rightarrow> ((string \<times> Zone) list \<times> world) option" where
  "analyzeLoop baseParams progressCallback totalCount i [] results w = Some (results, w)"
| "analyzeLoop baseParams progressCallback totalCount i (param # rest) results w =
     (let w1 = console_log (ParamHeaderLog (param_key param) (virtuous param)
                              (param_min param) (param_max param)) w;
          w2 = (case progressCallback of
                  None \<Rightarrow> w1
                | Some callback \<Rightarrow> callback (param_key param) (i + 1) totalCount w1)
      in case searchPair baseParams param w2 of
           None \<Rightarrow> None
         | Some ((pAutocratic, pDemocratic), w3) \<Rightarrow>
             (let zoneWidth = \<bar>pDemocratic - pAutocratic\<bar>;
                  w4 = console_log (ParamResultLog (param_key param) pAutocratic pDemocratic
                                      zoneWidth) w3;
                  results' = results @
                    [(param_key param,
                      \<lparr> autocratic = pAutocratic, democratic = pDemocratic,
                        zone_min = min pAutocratic pDemocratic,
                        zone_max = max pAutocratic pDemocratic,
                        zone_virtuous = virtuous param \<rparr>)]
              in analyzeLoop baseParams progressCallback totalCount (i + 1) rest results' w4))"

definition analyzeSensitivity ::
  "Parameters \<Rightarrow> progress_callback option \<Rightarrow> world
     \<Rightarrow> ((string \<times> Zone) list \<times> world) option" where
  "analyzeSensitivity baseParams progressCallback w =
     (let totalCount = length parametersToAnalyze;
          w1 = console_log AnalysisStartLog w
      in case analyzeLoop baseParams progressCallback totalCount 0 parametersToAnalyze [] w1 of
           None \<Rightarrow> None
         | Some (results, w2) \<Rightarrow>
             (let w3 = console_log AnalysisDoneLog w2;
                  w4 = console_log
                         (ResultsTableLog
                            (map (\<lambda>(k, val). (k, zone_virtuous val, autocratic val, democratic val,
                                              \<bar>democratic val - autocratic val\<bar>)) results)) w3
              in Some (results, w4)))"

section \<open>JavaScript numbers with their special values\<close>

text \<open>
  Two functions are read a second time, over the values of a JavaScript number that
  the real-number reading leaves out: \<open>Agent.update\<close>, which takes any derivative
  values and any time step, and \<open>findParameterForPsi\<close>, which takes any bounds, target
  and tolerance. A number is a finite value, \<open>Infinity\<close>, \<open>-Infinity\<close> or \<open>NaN\<close>.

  The arithmetic is that of IEEE 754 doubles as far as the special values go: an
  operation on \<open>NaN\<close> yields \<open>NaN\<close>, so do \<open>Infinity - Infinity\<close> and \<open>Infinity * 0\<close>; every
  comparison with \<open>NaN\<close> is false; \<open>Math.max\<close> and \<open>Math.min\<close> return \<open>NaN\<close> when an
  argument is \<open>NaN\<close>; and a finite result whose magnitude reaches the overflow
  threshold \<open>2^1024 - 2^970\<close> (half an ulp above \<open>Number.MAX_VALUE = 2^1024 - 2^971\<close>)
  becomes infinite. A finite result below the threshold is kept exact: rounding to the
  nearest double, underflow and the sign of zero are not modelled. An absent property
  of the derivatives object reads as \<open>undefined\<close>, and \<open>undefined * dt\<close> is \<open>NaN\<close>.
\<close>

datatype number = Num real | PosInfinity | NegInfinity | NaN

definition overflowThreshold :: real where
  "overflowThreshold = 2 ^ 1024 - 2 ^ 970"

text \<open>The number that a finite exact result becomes.\<close>

definition to_number :: "real \<Rightarrow> number" where
  "to_number r = (if overflowThreshold \<le> r then PosInfinity
                  else if r \<le> - overflowThreshold then NegInfinity
                  else Num r)"

fun isFinite :: "number \<Rightarrow> bool" where
  "isFinite (Num a) = True"
| "isFinite x = False"

fun signOf :: "number \<Rightarrow> int" where
  "signOf (Num a) = (if a < 0 then -1 else if a = 0 then 0 else 1)"
| "signOf PosInfinity = 1"
| "signOf NegInfinity = -1"
| "signOf NaN = 0"

definition infinityOfSign :: "int \<Rightarrow> number" where
  "infinityOfSign s = (if s = 0 then NaN else if 0 < s then PosInfinity else NegInfinity)"

fun js_add :: "number \<Rightarrow> number \<Rightarrow> number" where
  "js_add (Num a) (Num b) = to_number (a + b)"
| "js_add NaN y = NaN"
| "js_add x NaN = NaN"
| "js_add PosInfinity NegInfinity = NaN"
| "js_add NegInfinity PosInfinity = NaN"
| "js_add PosInfinity y = PosInfinity"
| "js_add NegInfinity y = NegInfinity"
| "js_add (Num a) y = y"

fun js_neg :: "number \<Rightarrow> number" where
  "js_neg (Num a) = Num (- a)"
| "js_neg PosInfinity = NegInfinity"
| "js_neg NegInfinity = PosInfinity"
| "js_neg NaN = NaN"

definition js_sub :: "number \<Rightarrow> number \<Rightarrow> number" where
  "js_sub x y = js_add x (js_neg y)"

text \<open>A product with an infinite factor is infinite with the product of the signs, and \<open>NaN\<close> when the other factor is zero.\<close>

fun js_mul :: "number \<Rightarrow> number \<Rightarrow> number" where
  "js_mul (Num a) (Num b) = to_number (a * b)"
| "js_mul NaN y = NaN"
| "js_mul x NaN = NaN"
| "js_mul x y = infinityOfSign (signOf x * signOf y)"

text \<open>Division by the constant 2, the only division of the two functions.\<close>

fun js_half :: "number \<Rightarrow> number" where
  "js_half (Num a) = Num (a / 2)"
| "js_half x = x"

fun js_lt :: "number \<Rightarrow> number \<Rightarrow> bool" where
  "js_lt (Num a) (Num b) = (a < b)"
| "js_lt NaN y = False"
| "js_lt x NaN = False"
| "js_lt x NegInfinity = False"
| "js_lt NegInfinity y = True"
| "js_lt PosInfinity y = False"
| "js_lt x PosInfinity = True"

text \<open>Strict equality \<open>===\<close> on numbers: \<open>NaN\<close> equals nothing, itself included.\<close>

definition js_eq :: "number \<Rightarrow> number \<Rightarrow> bool" where
  "js_eq x y = (x \<noteq> NaN \<and> x = y)"

definition js_le :: "number \<Rightarrow> number \<Rightarrow> bool" where
  "js_le x y = (js_lt x y \<or> js_eq x y)"

definition js_gt :: "number \<Rightarrow> number \<Rightarrow> bool" where
  "js_gt x y = js_lt y x"

definition js_ge :: "number \<Rightarrow> number \<Rightarrow> bool" where
  "js_ge x y = js_le y x"

definition Math_max :: "number \<Rightarrow> number \<Rightarrow> number" where
  "Math_max x y = (if x = NaN \<or> y = NaN then NaN else if js_lt x y then y else x)"

definition Math_min :: "number \<Rightarrow> number \<Rightarrow> number" where
  "Math_min x y = (if x = NaN \<or> y = NaN then NaN else if js_lt y x then y else x)"

fun Math_abs :: "number \<Rightarrow> number" where
  "Math_abs (Num a) = Num \<bar>a\<bar>"
| "Math_abs NaN = NaN"
| "Math_abs x = PosInfinity"

subsection \<open>Agent.update over numbers\<close>

record NumAgent =
  n_id :: nat
  n_x :: number
  n_y :: number
  n_wealth :: number
  n_education :: number
  n_security :: number
  n_toleranceEconomic :: number
  n_tolerancePhysical :: number
  n_toleranceCultural :: number
  n_civicEnergy :: number
  n_permeability :: number
  n_democraticAdherence :: number
  n_positiveContacts :: number
  n_negativeContacts :: number
  n_neighbors :: "nat list"

record NumDerivatives =
  n_dAlpha :: number
  n_dTauC :: number
  n_dSecurity :: number
  n_dPermeability :: number
  n_dCivicEnergy :: number

text \<open>\<open>clamp(value, min, max)\<close> is \<open>Math.max(min, Math.min(max, value))\<close>.\<close>

definition clamp_num :: "number \<Rightarrow> number \<Rightarrow> number \<Rightarrow> number" where
  "clamp_num v lo hi = Math_max lo (Math_min hi v)"

text \<open>\<open>Agent.update(derivatives, dt)\<close>, statement by statement as in \<open>Agent_update\<close>.\<close>

definition Agent_update_num :: "NumAgent \<Rightarrow> NumDerivatives \<Rightarrow> number \<Rightarrow> NumAgent" where
  "Agent_update_num a d dt =
     (let a1 = a\<lparr> n_democraticAdherence := js_add (n_democraticAdherence a) (js_mul (n_dAlpha d) dt) \<rparr>;
          a2 = a1\<lparr> n_toleranceCultural := js_add (n_toleranceCultural a1) (js_mul (n_dTauC d) dt) \<rparr>;
          a3 = a2\<lparr> n_security := js_add (n_security a2) (js_mul (n_dSecurity d) dt) \<rparr>;
          a4 = a3\<lparr> n_permeability := js_add (n_permeability a3) (js_mul (n_dPermeability d) dt) \<rparr>;
          a5 = a4\<lparr> n_civicEnergy := js_add (n_civicEnergy a4) (js_mul (n_dCivicEnergy d) dt) \<rparr>;
          b1 = a5\<lparr> n_democraticAdherence := clamp_num (n_democraticAdherence a5) (Num (-1)) (Num 1) \<rparr>;
          b2 = b1\<lparr> n_toleranceCultural := clamp_num (n_toleranceCultural b1) (Num (-1)) (Num 1) \<rparr>;
          b3 = b2\<lparr> n_toleranceEconomic := clamp_num (n_toleranceEconomic b2) (Num (-1)) (Num 1) \<rparr>;
          b4 = b3\<lparr> n_tolerancePhysical := clamp_num (n_tolerancePhysical b3) (Num (-1)) (Num 1) \<rparr>;
          b5 = b4\<lparr> n_security := clamp_num (n_security b4) (Num 0) (Num 1) \<rparr>;
          b6 = b5\<lparr> n_permeability := clamp_num (n_permeability b5) (Num 0) (Num 1) \<rparr>;
          b7 = b6\<lparr> n_civicEnergy := clamp_num (n_civicEnergy b6) (Num 0) (Num 1) \<rparr>
      in b7\<lparr> n_wealth := Math_max (Num 0) (n_wealth b7) \<rparr>)"

text \<open>A sequence of \<open>update\<close> calls, each with its own derivatives and time step.\<close>

fun updates_num :: "NumAgent \<Rightarrow> (NumDerivatives \<times> number) list \<Rightarrow> NumAgent" where
  "updates_num a [] = a"
| "updates_num a ((d, dt) # rest) = updates_num (Agent_update_num a d dt) rest"

text \<open>
  The declared domains of the fields that \<open>update\<close> evolves, and of wealth, as the
  comparisons of the language decide them: \<open>NaN\<close> lies in no interval.
\<close>

definition between :: "real \<Rightarrow> real \<Rightarrow> number \<Rightarrow> bool" where
  "between lo hi x = (js_le (Num lo) x \<and> js_le x (Num hi))"

definition evolved_in_domain_num :: "NumAgent \<Rightarrow> bool" where
  "evolved_in_domain_num a =
     (between (-1) 1 (n_democraticAdherence a) \<and>
      between (-1) 1 (n_toleranceCultural a) \<and>
      between 0 1 (n_security a) \<and>
      between 0 1 (n_permeability a) \<and>
      between 0 1 (n_civicEnergy a) \<and>
      js_ge (n_wealth a) (Num 0))"

text \<open>
  One call is free of \<open>NaN\<close> when none of its five Euler sums \<open>value + d.value * dt\<close>
  is \<open>NaN\<close> and the wealth it floors is not \<open>NaN\<close>; a sequence of calls is, when each
  call is on the agent that the calls before it have left.
\<close>

definition euler_defined :: "NumAgent \<Rightarrow> NumDerivatives \<Rightarrow> number \<Rightarrow> bool" where
  "euler_defined a d dt =
     (js_add (n_democraticAdherence a) (js_mul (n_dAlpha d) dt) \<noteq> NaN \<and>
      js_add (n_toleranceCultural a) (js_mul (n_dTauC d) dt) \<noteq> NaN \<and>
      js_add (n_security a) (js_mul (n_dSecurity d) dt) \<noteq> NaN \<and>
      js_add (n_permeability a) (js_mul (n_dPermeability d) dt) \<noteq> NaN \<and>
      js_add (n_civicEnergy a) (js_mul (n_dCivicEnergy d) dt) \<noteq> NaN \<and>
      n_wealth a \<noteq> NaN)"

fun updates_defined :: "NumAgent \<Rightarrow> (NumDerivatives \<times> number) list \<Rightarrow> bool" where
  "updates_defined a [] = True"
| "updates_defined a ((d, dt) # rest) =
     (euler_defined a d dt \<and> updates_defined (Agent_update_num a d dt) rest)"

definition finite_derivatives :: "NumDerivatives \<Rightarrow> bool" where
  "finite_derivatives d =
     (isFinite (n_dAlpha d) \<and> isFinite (n_dTauC d) \<and> isFinite (n_dSecurity d) \<and>
      isFinite (n_dPermeability d) \<and> isFinite (n_dCivicEnergy d))"

definition finite_evolved :: "NumAgent \<Rightarrow> bool" where
  "finite_evolved a =
     (isFinite (n_democraticAdherence a) \<and> isFinite (n_toleranceCultural a) \<and>
      isFinite (n_security a) \<and> isFinite (n_permeability a) \<and> isFinite (n_civicEnergy a) \<and>
      isFinite (n_wealth a))"

text \<open>
  The agents and derivatives of the real-number reading, as numbers; and the calls on
  which the two readings are compared: those whose products and sums stay below the
  overflow threshold.
\<close>

definition Agent_to_num :: "Agent \<Rightarrow> NumAgent" where
  "Agent_to_num a =
     \<lparr> n_id = agent_id a, n_x = Num (agent_x a), n_y = Num (agent_y a),
       n_wealth = Num (wealth a), n_education = Num (education a),
       n_security = Num (security a),
       n_toleranceEconomic = Num (toleranceEconomic a),
       n_tolerancePhysical = Num (tolerancePhysical a),
       n_toleranceCultural = Num (toleranceCultural a),
       n_civicEnergy = Num (civicEnergy a), n_permeability = Num (permeability a),
       n_democraticAdherence = Num (democraticAdherence a),
       n_positiveContacts = Num (positiveContacts a),
       n_negativeContacts = Num (negativeContacts a),
       n_neighbors = neighbors a \<rparr>"

definition Derivatives_to_num :: "AgentDerivatives \<Rightarrow> NumDerivatives" where
  "Derivatives_to_num d =
     \<lparr> n_dAlpha = Num (dAlpha d), n_dTauC = Num (dTauC d), n_dSecurity = Num (dSecurity d),
       n_dPermeability = Num (dPermeability d), n_dCivicEnergy = Num (dCivicEnergy d) \<rparr>"

definition representable :: "real \<Rightarrow> bool" where
  "representable r = (\<bar>r\<bar> < overflowThreshold)"

definition euler_representable :: "Agent \<Rightarrow> AgentDerivatives \<Rightarrow> real \<Rightarrow> bool" where
  "euler_representable a d dt =
     (representable (dAlpha d * dt) \<and> representable (democraticAdherence a + dAlpha d * dt) \<and>
      representable (dTauC d * dt) \<and> representable (toleranceCultural a + dTauC d * dt) \<and>
      representable (dSecurity d * dt) \<and> representable (security a + dSecurity d * dt) \<and>
      representable (dPermeability d * dt) \<and> representable (permeability a + dPermeability d * dt) \<and>
      representable (dCivicEnergy d * dt) \<and> representable (civicEnergy a + dCivicEnergy d * dt))"

subsection \<open>The threshold search over numbers\<close>

text \<open>
  \<open>findParameterForPsi\<close> once more, with the same structure as
  \<open>findParameterForPsi_with\<close>: the evaluation of the order parameter is an effectful
  function of the parameter value, which may return any number; the bounds, the target
  and the tolerance are numbers; the midpoint \<open>(low + high) / 2\<close> may overflow.
\<close>

type_synonym evaluator_num = "number \<Rightarrow> number gworld \<Rightarrow> (number \<times> number gworld) option"

definition satisfiesCondition_num :: "number \<Rightarrow> number \<Rightarrow> number \<Rightarrow> bool" where
  "satisfiesCondition_num targetPsi tolerance psiMid =
     (if js_eq targetPsi (Num 0) then js_le psiMid (js_add (Num 0) tolerance)
      else (js_ge psiMid (js_sub targetPsi tolerance) \<and> js_le psiMid (js_add targetPsi tolerance)))"

type_synonym bisection_state_num = "number \<times> number \<times> number \<times> nat"

function bisection_num ::
  "evaluator_num \<Rightarrow> number \<Rightarrow> number \<Rightarrow> string \<Rightarrow> bool \<Rightarrow> number \<Rightarrow> number \<Rightarrow> number \<Rightarrow> nat
     \<Rightarrow> number gworld \<Rightarrow> (bisection_state_num \<times> number gworld) option" where
  "bisection_num ev targetPsi tolerance extremum isIncreasing low high bestCandidate iteration w =
     (if iteration < 30 \<and> js_gt (js_sub high low) (js_mul tolerance (Num 0.01)) then
        (let mid = js_half (js_add low high)
         in case ev mid w of
              None \<Rightarrow> None
            | Some (psiMid, w1) \<Rightarrow>
                (let best' =
                       (if satisfiesCondition_num targetPsi tolerance psiMid then
                          (if extremum = ''min'' \<and> js_lt mid bestCandidate then mid
                           else if extremum = ''max'' \<and> js_gt mid bestCandidate then mid
                           else bestCandidate)
                        else bestCandidate);
                     low' = (if isIncreasing then (if js_lt psiMid targetPsi then mid else low)
                             else (if js_lt psiMid targetPsi then low else mid));
                     high' = (if isIncreasing then (if js_lt psiMid targetPsi then high else mid)
                              else (if js_lt psiMid targetPsi then mid else high))
                 in bisection_num ev targetPsi tolerance extremum isIncreasing low' high' best'
                      (iteration + 1) w1))
      else Some ((low, high, bestCandidate, iteration), w))"
  by pat_completeness auto
termination
  by (relation "measure (\<lambda>(ev, targetPsi, tolerance, extremum, isIncreasing, low, high,
                            bestCandidate, iteration, w). 30 - iteration)") auto

definition findParameterForPsi_num ::
  "evaluator_num \<Rightarrow> string \<Rightarrow> number \<Rightarrow> number \<Rightarrow> number \<Rightarrow> number \<Rightarrow> string \<Rightarrow> number gworld
     \<Rightarrow> (number \<times> number gworld) option" where
  "findParameterForPsi_num ev paramName targetPsi pMin pMax tolerance extremum w =
     (case ev pMin w of
        None \<Rightarrow> None
      | Some (psiMin, w1) \<Rightarrow>
     (case ev pMax w1 of
        None \<Rightarrow> None
      | Some (psiMax, w2) \<Rightarrow>
     (let isIncreasing = js_gt psiMax psiMin;
          w3 = console_log (SearchLog paramName targetPsi extremum pMin psiMin pMax psiMax
                              isIncreasing) w2;
          minPsiValue = Math_min psiMin psiMax;
          maxPsiValue = Math_max psiMin psiMax
      in if js_lt targetPsi minPsiValue \<or> js_gt targetPsi maxPsiValue then
           (let result = outOfReachBound extremum isIncreasing pMin pMax
            in Some (result,
                     console_log (OutOfReachLog targetPsi minPsiValue maxPsiValue result) w3))
         else
           (case bisection_num ev targetPsi tolerance extremum isIncreasing pMin pMax
                   (if extremum = ''min'' then pMax else pMin) 0 w3 of
              None \<Rightarrow> None
            | Some ((low, high, bestCandidate, iteration), w4) \<Rightarrow>
           (let finalMid = js_half (js_add low high)
            in case ev finalMid w4 of
                 None \<Rightarrow> None
               | Some (psiFinal, w5) \<Rightarrow>
                   (let result =
                          (if js_lt (Math_abs (js_sub psiFinal targetPsi)) tolerance then
                             (if extremum = ''min'' then Math_min bestCandidate finalMid
                              else Math_max bestCandidate finalMid)
                           else (if \<not> js_eq bestCandidate (if extremum = ''min'' then high else low)
                                 then bestCandidate else finalMid))
                    in Some (result,
                             console_log (FoundLog paramName result psiFinal iteration) w5)))))))"

section \<open>Auxiliary notions and concrete inputs\<close>

text \<open>
  Notions in which the theorems below are stated, and inputs on which they are
  instantiated and evaluated.
\<close>

definition exampleWorld :: world where
  "exampleWorld = \<lparr> rng = (\<lambda>n. 1 / 2), rng_pos = 0, trace = [] \<rparr>"

text \<open>
  An agent inside every domain and one outside every domain, as numbers; and
  derivatives with the same value for every field.
\<close>

definition exampleNumAgent :: NumAgent where
  "exampleNumAgent =
     \<lparr> n_id = 0, n_x = Num 0, n_y = Num 0, n_wealth = Num (1/2), n_education = Num (1/2),
       n_security = Num (1/2), n_toleranceEconomic = Num (1/2), n_tolerancePhysical = Num (1/2),
       n_toleranceCultural = Num (1/2), n_civicEnergy = Num (1/2), n_permeability = Num (1/2),
       n_democraticAdherence = Num (1/2), n_positiveContacts = Num 0,
       n_negativeContacts = Num 0, n_neighbors = [] \<rparr>"

definition wildNumAgent :: NumAgent where
  "wildNumAgent =
     \<lparr> n_id = 0, n_x = Num 0, n_y = Num 0, n_wealth = Num (-3), n_education = Num (1/2),
       n_security = Num 7, n_toleranceEconomic = Num 4, n_tolerancePhysical = Num (-4),
       n_toleranceCultural = Num (-9), n_civicEnergy = Num (-2), n_permeability = PosInfinity,
       n_democraticAdherence = Num 5, n_positiveContacts = Num 0,
       n_negativeContacts = Num 0, n_neighbors = [] \<rparr>"

definition constantDerivatives :: "number \<Rightarrow> NumDerivatives" where
  "constantDerivatives v =
     \<lparr> n_dAlpha = v, n_dTauC = v, n_dSecurity = v, n_dPermeability = v, n_dCivicEnergy = v \<rparr>"

text \<open>
  Two agents that are each other's only neighbour, with opposite adherence, under
  parameters that leave social influence as the only force.
\<close>

definition pairAgent :: "nat \<Rightarrow> real \<Rightarrow> nat \<Rightarrow> Agent" where
  "pairAgent i alpha other = \<lparr> agent_id = i, agent_x = 0, agent_y = 0,
     wealth = 1, education = 0.5, security = 0.5,
     toleranceEconomic = 0, tolerancePhysical = 0, toleranceCultural = 0,
     civicEnergy = 0.5, permeability = 1, democraticAdherence = alpha,
     positiveContacts = 0, negativeContacts = 0, neighbors = [other] \<rparr>"

definition zeroParameters :: Parameters where
  "zeroParameters = \<lparr>
     beta1 = 0, beta2 = 0, beta3 = 0, beta4 = 0,
     gamma1 = 0, gamma2 = 0, gamma3 = 0, gamma4 = 0,
     delta1 = 0, delta2 = 0, delta3 = 0, delta4 = 0, delta5 = 0,
     eta1 = 0, eta2 = 0, eta3 = 0,
     lambda1 = 0, lambda2 = 0, lambda3 = 0, lambda4 = 0,
     mu1 = 0, mu2 = 0, mu3 = 0,
     nu1 = 0, nu2 = 0, nu3 = 0,
     rho1 = 0, rho2 = 0, rho3 = 0, rho4 = 0,
     other_props = (\<lambda>name. None) \<rparr>"

definition pairSimulator :: Simulator where
  "pairSimulator = \<lparr> sim_numAgents = 2,
     sim_agents = [pairAgent 0 (1 / 2) 1, pairAgent 1 (- 1 / 2) 0],
     sim_society = new_Society, sim_parameters = zeroParameters,
     sim_time = 0, sim_dt = 1, sim_running = True \<rparr>"

text \<open>An agent with its contact fields cleared: everything the contact pass leaves alone.\<close>

definition without_contacts :: "Agent \<Rightarrow> Agent" where
  "without_contacts a = a\<lparr> positiveContacts := 0, negativeContacts := 0 \<rparr>"

text \<open>
  A lone agent of positive cultural tolerance that has had no contact, under parameters
  that leave positive contact as the only force, and a stream of draws whose first
  draw lets the contact happen.
\<close>

definition contactAgent :: Agent where
  "contactAgent = \<lparr> agent_id = 0, agent_x = 0, agent_y = 0,
     wealth = 1, education = 0.5, security = 0.5,
     toleranceEconomic = 0, tolerancePhysical = 0, toleranceCultural = 1 / 2,
     civicEnergy = 0.5, permeability = 1, democraticAdherence = 0,
     positiveContacts = 0, negativeContacts = 0, neighbors = [] \<rparr>"

definition contactSimulator :: Simulator where
  "contactSimulator = \<lparr> sim_numAgents = 1,
     sim_agents = [contactAgent],
     sim_society = new_Society, sim_parameters = zeroParameters\<lparr> gamma2 := 1 \<rparr>,
     sim_time = 0, sim_dt = 1, sim_running = True \<rparr>"

definition contactWorld :: world where
  "contactWorld = \<lparr> rng = (\<lambda>n. if n = 0 then 0 else 1 / 2), rng_pos = 0, trace = [] \<rparr>"

text \<open>
  What the population would be after a step whose agent derivatives were evaluated
  from the agents exactly as they are before the step, contact fields included.
\<close>

definition updatedFromPreStepState :: "Simulator \<Rightarrow> Agent list" where
  "updatedFromPreStepState sim =
     map (\<lambda>a. Agent_update a
                (computeAgentDerivatives (sim_agents sim) a (sim_society sim) (sim_parameters sim))
                (sim_dt sim))
       (sim_agents sim)"

text \<open>
  The state of a realization after \<open>k\<close> passes through the body of its time loop, and
  the two quantities the early-exit test reads from it.
\<close>

definition stepsRun :: "Parameters \<Rightarrow> real \<Rightarrow> nat \<Rightarrow> realization_state \<times> world \<Rightarrow> realization_state \<times> world" where
  "stepsRun params dt k sw = ((realization_body params dt) ^^ k) sw"

definition stateQuality :: "realization_state \<times> world \<Rightarrow> real" where
  "stateQuality sw = (case sw of ((agents, society, time), w) \<Rightarrow> institutionalQuality society)"

definition statePsi :: "realization_state \<times> world \<Rightarrow> real" where
  "statePsi sw = (case sw of ((agents, society, time), w) \<Rightarrow> getOrderParameter agents society)"

text \<open>Parameters under which corruption by inequality overwhelms the institutions.\<close>

definition collapseParameters :: Parameters where
  "collapseParameters = new_Parameters\<lparr> mu3 := 1000 \<rparr>"

section \<open>Reading the trace\<close>

text \<open>
  The milestones of a trace: the start of a threshold search (its opening log line
  carries the parameter name, the target and the requested extremum), the end of a
  search (the log line written just before either \<open>return\<close>), and an invocation of the
  progress callback. All other log lines carry no milestone.
\<close>

datatype milestone =
    SearchStarted string real string
  | SearchFinished
  | CallbackInvoked string nat nat

fun milestoneOf :: "event \<Rightarrow> milestone list" where
  "milestoneOf (SearchLog paramName targetPsi extremum pMin psiMin pMax psiMax isIncreasing) =
     [SearchStarted paramName targetPsi extremum]"
| "milestoneOf (OutOfReachLog targetPsi minPsiValue maxPsiValue result) = [SearchFinished]"
| "milestoneOf (FoundLog paramName result psiFinal iteration) = [SearchFinished]"
| "milestoneOf (ProgressCallback paramName current totalCount) =
     [CallbackInvoked paramName current totalCount]"
| "milestoneOf e = []"

definition milestones :: "event list \<Rightarrow> milestone list" where
  "milestones es = concat (map milestoneOf es)"

text \<open>
  A synthetic evaluator for the search: the order parameter is an exact affine function
  of the parameter value, \<open>a + b * p\<close>, and evaluating it has no effect.
\<close>

definition linearPsi :: "real \<Rightarrow> real \<Rightarrow> evaluator" where
  "linearPsi a b p w = Some (a + b * p, w)"

text \<open>
  The bound whose measured order parameter is nearest to the target. This is the
  fallback of the module's earlier revision,
  \<open>Math.abs(targetPsi - psiMin) < Math.abs(targetPsi - psiMax) ? pMin : pMax\<close>, which the
  search no longer uses.
\<close>

definition nearestBound :: "real \<Rightarrow> real \<Rightarrow> real \<Rightarrow> real \<Rightarrow> real \<Rightarrow> real" where
  "nearestBound targetPsi psiMin psiMax pMin pMax =
     (if \<bar>targetPsi - psiMin\<bar> < \<bar>targetPsi - psiMax\<bar> then pMin else pMax)"

text \<open>
  Evaluators over numbers: one that returns the same value everywhere, one that returns
  the parameter value itself. A world with an empty console. Two bounds close to the
  largest double: \<open>1.7e308\<close> and \<open>1.5e308\<close>.
\<close>

definition constantPsi :: "number \<Rightarrow> evaluator_num" where
  "constantPsi v p w = Some (v, w)"

definition identityPsi :: evaluator_num where
  "identityPsi p w = Some (p, w)"

definition silentWorld :: "number gworld" where
  "silentWorld = \<lparr> rng = (\<lambda>n. 1 / 2), rng_pos = 0, trace = [] \<rparr>"

definition largeBound :: real where
  "largeBound = 17 * 10 ^ 307"

definition mediumBound :: real where
  "mediumBound = 15 * 10 ^ 307"

text \<open>
  A stream of draws that differs from the constant one only in the draw that becomes the
  adherence of a lone agent: alternately a little above and a little below one half.
\<close>

definition alternatingWorld :: world where
  "alternatingWorld =
     \<lparr> rng = (\<lambda>n. if n mod 22 = 10 then 51 / 100 else if n mod 22 = 21 then 49 / 100 else 1 / 2),
       rng_pos = 0, trace = [] \<rparr>"

text \<open>The searches a trace shows to have been started: parameter, target, extremum.\<close>

fun requestsOf :: "milestone list \<Rightarrow> (string \<times> real \<times> string) list" where
  "requestsOf [] = []"
| "requestsOf (SearchStarted paramName targetPsi extremum # ms) =
     (paramName, targetPsi, extremum) # requestsOf ms"
| "requestsOf (m # ms) = requestsOf ms"

definition searchRequests :: "event list \<Rightarrow> (string \<times> real \<times> string) list" where
  "searchRequests es = requestsOf (milestones es)"

text \<open>
  For every invocation of the progress callback in a list of milestones, the number of
  searches that had finished before it (counting from \<open>n\<close>).
\<close>

fun finishedBeforeCallbacks :: "nat \<Rightarrow> milestone list \<Rightarrow> nat list" where
  "finishedBeforeCallbacks n [] = []"
| "finishedBeforeCallbacks n (SearchFinished # ms) = finishedBeforeCallbacks (n + 1) ms"
| "finishedBeforeCallbacks n (CallbackInvoked paramName current totalCount # ms) =
     n # finishedBeforeCallbacks n ms"
| "finishedBeforeCallbacks n (m # ms) = finishedBeforeCallbacks n ms"

text \<open>
  The milestones of the two searches of one parameter, and of a whole sweep with a
  callback that records its invocations.
\<close>

definition pairMilestones :: "ParamSpec \<Rightarrow> milestone list" where
  "pairMilestones param =
     (if virtuous param then
        [SearchStarted (param_key param) 0 ''max'', SearchFinished,
         SearchStarted (param_key param) 0.3 ''min'', SearchFinished]
      else
        [SearchStarted (param_key param) 0 ''min'', SearchFinished,
         SearchStarted (param_key param) 0.3 ''max'', SearchFinished])"

fun sweepMilestones :: "nat \<Rightarrow> nat \<Rightarrow> ParamSpec list \<Rightarrow> milestone list" where
  "sweepMilestones totalCount i [] = []"
| "sweepMilestones totalCount i (param # rest) =
     CallbackInvoked (param_key param) (i + 1) totalCount #
     pairMilestones param @ sweepMilestones totalCount (i + 1) rest"

section \<open>The clamping invariant\<close>

lemma to_number_not_NaN [simp]: "to_number r \<noteq> NaN"
  by (simp add: to_number_def)

lemma to_number_Num: "\<bar>r\<bar> < overflowThreshold \<Longrightarrow> to_number r = Num r"
  by (auto simp: to_number_def)

lemma to_number_small: "\<bar>r\<bar> \<le> 2 ^ 1000 \<Longrightarrow> to_number r = Num r"
  by (rule to_number_Num) (simp add: overflowThreshold_def)

lemma to_number_overflow: "overflowThreshold \<le> r \<Longrightarrow> to_number r = PosInfinity"
  by (simp add: to_number_def)

lemma clamp_num_between:
  "lo \<le> hi \<Longrightarrow> v \<noteq> NaN \<Longrightarrow> between lo hi (clamp_num v (Num lo) (Num hi))"
  by (cases v) (auto simp: clamp_num_def Math_max_def Math_min_def between_def js_le_def js_eq_def)

lemma clamp_num_NaN: "clamp_num NaN lo hi = NaN"
  by (simp add: clamp_num_def Math_max_def Math_min_def)

lemma between_not_NaN: "\<not> between lo hi NaN"
  by (simp add: between_def js_le_def js_eq_def)

lemma floor_wealth: "v \<noteq> NaN \<Longrightarrow> js_ge (Math_max (Num 0) v) (Num 0)"
  by (cases v) (auto simp: Math_max_def js_ge_def js_le_def js_eq_def)

text \<open>The fields that one call of \<open>update\<close> writes.\<close>

lemma Agent_update_num_fields:
  "Agent_update_num a d dt =
     a\<lparr> n_democraticAdherence :=
            clamp_num (js_add (n_democraticAdherence a) (js_mul (n_dAlpha d) dt)) (Num (-1)) (Num 1),
        n_toleranceCultural :=
            clamp_num (js_add (n_toleranceCultural a) (js_mul (n_dTauC d) dt)) (Num (-1)) (Num 1),
        n_toleranceEconomic := clamp_num (n_toleranceEconomic a) (Num (-1)) (Num 1),
        n_tolerancePhysical := clamp_num (n_tolerancePhysical a) (Num (-1)) (Num 1),
        n_security := clamp_num (js_add (n_security a) (js_mul (n_dSecurity d) dt)) (Num 0) (Num 1),
        n_permeability :=
            clamp_num (js_add (n_permeability a) (js_mul (n_dPermeability d) dt)) (Num 0) (Num 1),
        n_civicEnergy :=
            clamp_num (js_add (n_civicEnergy a) (js_mul (n_dCivicEnergy d) dt)) (Num 0) (Num 1),
        n_wealth := Math_max (Num 0) (n_wealth a) \<rparr>"
  by (simp add: Agent_update_num_def Let_def)

text \<open>
  One call leaves the agent in its domains exactly when the call is free of \<open>NaN\<close>,
  whatever the agent was before.
\<close>

lemma Agent_update_num_in_domain:
  "euler_defined a d dt \<Longrightarrow> evolved_in_domain_num (Agent_update_num a d dt)"
  by (simp add: euler_defined_def evolved_in_domain_num_def Agent_update_num_fields
      clamp_num_between floor_wealth)

lemma Agent_update_num_only_if:
  "evolved_in_domain_num (Agent_update_num a d dt) \<Longrightarrow> euler_defined a d dt"
  by (auto simp: euler_defined_def evolved_in_domain_num_def Agent_update_num_fields
      clamp_num_NaN between_not_NaN Math_max_def js_ge_def js_le_def js_eq_def)

lemma updates_num_in_domain:
  "updates_defined a ds \<Longrightarrow> ds \<noteq> [] \<or> evolved_in_domain_num a \<Longrightarrow>
     evolved_in_domain_num (updates_num a ds)"
proof (induction ds arbitrary: a)
  case Nil
  then show ?case by simp
next
  case (Cons p ds)
  obtain d dt where p: "p = (d, dt)" by (cases p)
  from Cons.prems(1) have e: "euler_defined a d dt"
    and r: "updates_defined (Agent_update_num a d dt) ds" by (simp_all add: p)
  have "evolved_in_domain_num (Agent_update_num a d dt)"
    by (rule Agent_update_num_in_domain [OF e])
  then have "evolved_in_domain_num (updates_num (Agent_update_num a d dt) ds)"
    using Cons.IH [OF r] by simp
  then show ?case by (simp add: p)
qed

text \<open>
  Conversely, a \<open>NaN\<close> that one call leaves in a field stays there through every
  later call: a sequence of at least one call ends in the domains only if every call of
  it is free of \<open>NaN\<close>.
\<close>

lemma floor_NaN_iff: "Math_max (Num 0) v = NaN \<longleftrightarrow> v = NaN"
  by (cases v) (auto simp: Math_max_def)

lemma NaN_persists:
  "\<not> euler_defined a d dt \<Longrightarrow> \<not> euler_defined (Agent_update_num a d dt) d' dt'"
  by (auto simp: euler_defined_def Agent_update_num_fields clamp_num_NaN floor_NaN_iff Math_max_def)

lemma updates_num_only_if:
  "ds \<noteq> [] \<Longrightarrow> evolved_in_domain_num (updates_num a ds) \<Longrightarrow> updates_defined a ds"
proof (induction ds arbitrary: a)
  case Nil
  then show ?case by simp
next
  case (Cons p ds)
  obtain d dt where p: "p = (d, dt)" by (cases p)
  show ?case
  proof (cases ds)
    case Nil
    with Cons.prems p show ?thesis by (simp add: Agent_update_num_only_if)
  next
    case (Cons q rest)
    obtain d' dt' where q: "q = (d', dt')" by (cases q)
    have r: "updates_defined (Agent_update_num a d dt) ds"
      using Cons.IH [of "Agent_update_num a d dt"] Cons.prems(2) Cons p by simp
    then have "euler_defined (Agent_update_num a d dt) d' dt'" using Cons q by simp
    then have "euler_defined a d dt" using NaN_persists [of a d dt d' dt'] by blast
    with r show ?thesis by (simp add: p)
  qed
qed

text \<open>
  Calls with finite derivative values and a finite time step on an agent whose evolved
  fields are finite are free of \<open>NaN\<close>: a product of finite numbers is finite or
  infinite, and so is its sum with a finite number.
\<close>

lemma js_add_not_NaN: "isFinite x \<Longrightarrow> y \<noteq> NaN \<Longrightarrow> js_add x y \<noteq> NaN"
  by (cases x; cases y) simp_all

lemma js_mul_finite_not_NaN: "isFinite x \<Longrightarrow> isFinite y \<Longrightarrow> js_mul x y \<noteq> NaN"
  by (cases x; cases y) simp_all

lemma finite_euler_defined:
  "finite_evolved a \<Longrightarrow> finite_derivatives d \<Longrightarrow> isFinite dt \<Longrightarrow> euler_defined a d dt"
  by (auto simp: finite_evolved_def finite_derivatives_def euler_defined_def
      js_add_not_NaN js_mul_finite_not_NaN)

lemma clamp_num_isFinite: "v \<noteq> NaN \<Longrightarrow> isFinite (clamp_num v (Num lo) (Num hi))"
  by (cases v) (auto simp: clamp_num_def Math_max_def Math_min_def)

lemma floor_isFinite: "isFinite v \<Longrightarrow> isFinite (Math_max (Num 0) v)"
  by (cases v) (auto simp: Math_max_def)

lemma finite_update_finite:
  "finite_evolved a \<Longrightarrow> finite_derivatives d \<Longrightarrow> isFinite dt \<Longrightarrow>
     finite_evolved (Agent_update_num a d dt)"
  by (auto simp: finite_evolved_def finite_derivatives_def Agent_update_num_fields
      clamp_num_isFinite floor_isFinite js_add_not_NaN js_mul_finite_not_NaN)

lemma finite_updates_defined:
  "finite_evolved a \<Longrightarrow> list_all (\<lambda>(d, dt). finite_derivatives d \<and> isFinite dt) ds \<Longrightarrow>
     updates_defined a ds"
proof (induction ds arbitrary: a)
  case Nil
  then show ?case by simp
next
  case (Cons p ds)
  obtain d dt where p: "p = (d, dt)" by (cases p)
  from Cons.prems(2) have f: "finite_derivatives d" "isFinite dt"
    and r: "list_all (\<lambda>(d, dt). finite_derivatives d \<and> isFinite dt) ds"
    by (simp_all add: p)
  show ?case
    using Cons.IH [OF finite_update_finite [OF Cons.prems(1) f] r]
      finite_euler_defined [OF Cons.prems(1) f]
    by (simp add: p)
qed

text \<open>
  Where no product and no sum reaches the overflow threshold, the update over numbers
  is the update of the real-number reading.
\<close>

lemma clamp_num_Num:
  "clamp_num (Num v) (Num lo) (Num hi) = Num (clamp v lo hi)"
  by (auto simp: clamp_num_def clamp_def Math_max_def Math_min_def)

lemma Agent_update_num_finite:
  "euler_representable a d dt \<Longrightarrow>
   Agent_update_num (Agent_to_num a) (Derivatives_to_num d) (Num dt) =
     Agent_to_num (Agent_update a d dt)"
  by (simp add: euler_representable_def representable_def Agent_update_num_def Agent_update_def
      Agent_to_num_def Derivatives_to_num_def Let_def to_number_Num clamp_num_Num
      Math_max_def)

text \<open>
  C5, as amended. After any number of \<open>update\<close> calls in which no Euler sum
  \<open>value + d.value * dt\<close> is \<open>NaN\<close> and the wealth is not \<open>NaN\<close> (as is the case
  whenever the agent's evolved fields, the derivative values and the time steps are
  finite numbers, lemma \<open>finite_updates_defined\<close>), democraticAdherence and
  toleranceCultural lie in [-1, 1], security, permeability and civicEnergy in [0, 1],
  and wealth is not negative. After at least one call this holds whatever the agent
  was before; after no call it holds of an agent that was in its domains.
\<close>

theorem update_keeps_domains_without_NaN:
  "updates_defined a ds \<Longrightarrow> ds \<noteq> [] \<or> evolved_in_domain_num a \<Longrightarrow>
     evolved_in_domain_num (updates_num a ds)"
  by (rule updates_num_in_domain)

text \<open>
  An agent outside every domain, with an infinite permeability, is brought into its
  domains by a call with large derivatives and kept there by a call with infinite ones.
\<close>

theorem update_keeps_domains_without_NaN_witness:
  "updates_defined wildNumAgent
     [(constantDerivatives (Num 1000), Num 10), (constantDerivatives NegInfinity, Num (1/2))] \<and>
   evolved_in_domain_num (updates_num wildNumAgent
     [(constantDerivatives (Num 1000), Num 10), (constantDerivatives NegInfinity, Num (1/2))]) \<and>
   n_democraticAdherence (updates_num wildNumAgent
     [(constantDerivatives (Num 1000), Num 10), (constantDerivatives NegInfinity, Num (1/2))]) = Num (-1) \<and>
   n_wealth (updates_num wildNumAgent
     [(constantDerivatives (Num 1000), Num 10), (constantDerivatives NegInfinity, Num (1/2))]) = Num 0"
proof -
  have d: "updates_defined wildNumAgent
     [(constantDerivatives (Num 1000), Num 10), (constantDerivatives NegInfinity, Num (1/2))]"
    by (simp add: euler_defined_def wildNumAgent_def constantDerivatives_def
        Agent_update_num_fields clamp_num_def Math_max_def Math_min_def to_number_small
        infinityOfSign_def)
  have i: "evolved_in_domain_num (updates_num wildNumAgent
     [(constantDerivatives (Num 1000), Num 10), (constantDerivatives NegInfinity, Num (1/2))])"
    by (rule update_keeps_domains_without_NaN [OF d]) simp
  have f: "n_democraticAdherence (updates_num wildNumAgent
     [(constantDerivatives (Num 1000), Num 10), (constantDerivatives NegInfinity, Num (1/2))]) = Num (-1)"
    "n_wealth (updates_num wildNumAgent
     [(constantDerivatives (Num 1000), Num 10), (constantDerivatives NegInfinity, Num (1/2))]) = Num 0"
    by (simp_all add: wildNumAgent_def constantDerivatives_def
        Agent_update_num_fields clamp_num_def Math_max_def Math_min_def to_number_small
        infinityOfSign_def)
  from d i f show ?thesis by blast
qed

text \<open>
  C5 as stated fails: the derivative values and the time step are arbitrary numbers,
  and \<open>clamp\<close> passes \<open>NaN\<close> through. On an agent inside every domain, one call with
  a \<open>NaN\<close> derivative of the adherence leaves the adherence \<open>NaN\<close>; one call with
  infinite derivatives and a zero time step leaves the five evolved fields \<open>NaN\<close>
  (\<open>Infinity * 0\<close>); and so does one call with zero derivatives and a \<open>NaN\<close> time step.
\<close>

theorem update_with_NaN_leaves_domain:
  "evolved_in_domain_num exampleNumAgent \<and>
   n_democraticAdherence (Agent_update_num exampleNumAgent
      ((constantDerivatives (Num 0))\<lparr> n_dAlpha := NaN \<rparr>) (Num 1)) = NaN \<and>
   \<not> evolved_in_domain_num (updates_num exampleNumAgent
      [((constantDerivatives (Num 0))\<lparr> n_dAlpha := NaN \<rparr>, Num 1)]) \<and>
   n_security (Agent_update_num exampleNumAgent (constantDerivatives PosInfinity) (Num 0)) = NaN \<and>
   \<not> evolved_in_domain_num (updates_num exampleNumAgent
      [(constantDerivatives PosInfinity, Num 0)]) \<and>
   \<not> evolved_in_domain_num (updates_num exampleNumAgent
      [(constantDerivatives (Num 0), NaN)])"
  by (simp add: exampleNumAgent_def constantDerivatives_def evolved_in_domain_num_def
      Agent_update_num_fields clamp_num_def Math_max_def Math_min_def to_number_small
      infinityOfSign_def between_def js_le_def js_eq_def js_ge_def)

section \<open>One simulation step is synchronous\<close>

text \<open>
  The in-place update loop over the indices writes, at every index, the update of the
  agent that was there before the loop with the derivative computed for it: no
  iteration reads what an earlier iteration wrote.
\<close>

lemma fold_update_prefix:
  "n \<le> length xs \<Longrightarrow> n \<le> length ds \<Longrightarrow>
   fold (\<lambda>i ags. ags[i := f (ags ! i) (ds ! i)]) [0..<n] xs =
     map (\<lambda>(a, d). f a d) (zip (take n xs) (take n ds)) @ drop n xs"
proof (induction n)
  case 0
  then show ?case by simp
next
  case (Suc n)
  then have n: "n < length xs" "n < length ds" by simp_all
  define ys where "ys = map (\<lambda>(a, d). f a d) (zip (take n xs) (take n ds))"
  have len: "length ys = n" using n by (simp add: ys_def)
  have "fold (\<lambda>i ags. ags[i := f (ags ! i) (ds ! i)]) [0..<Suc n] xs =
        (ys @ drop n xs)[n := f ((ys @ drop n xs) ! n) (ds ! n)]"
    using Suc by (simp add: ys_def)
  also have "\<dots> = ys @ (f (xs ! n) (ds ! n) # drop (Suc n) xs)"
    using n len by (simp add: list_update_append nth_append Cons_nth_drop_Suc [symmetric])
  also have "\<dots> = map (\<lambda>(a, d). f a d) (zip (take (Suc n) xs) (take (Suc n) ds)) @ drop (Suc n) xs"
    using n by (simp add: ys_def take_Suc_conv_app_nth)
  finally show ?case .
qed

lemma updateAgents_map:
  "length agentDerivatives = length agents \<Longrightarrow>
   updateAgents agents agentDerivatives dt =
     map (\<lambda>(a, d). Agent_update a d dt) (zip agents agentDerivatives)"
  unfolding updateAgents_def
  using fold_update_prefix [of "length agents" agents agentDerivatives "\<lambda>a d. Agent_update a d dt"]
  by simp

lemma updateAgents_derived:
  "updateAgents agents (map g agents) dt = map (\<lambda>a. Agent_update a (g a) dt) agents"
  by (simp add: updateAgents_map zip_map2 zip_same_conv_map)

lemma contacts_touch_only_contacts:
  "map without_contacts (fst (simulateInterculturalContacts agents soc w)) =
   map without_contacts agents"
  by (induction agents arbitrary: w)
     (simp_all add: without_contacts_def Let_def case_prod_beta)

lemma contacts_trace:
  "trace (snd (simulateInterculturalContacts agents soc w)) = trace w"
  by (induction agents arbitrary: w)
     (simp_all add: Math_random_def Let_def case_prod_beta)

text \<open>
  C6, as amended. In one \<open>Simulator.step\<close> on a population that is not empty, the
  contact pass comes first and rewrites the two transient contact fields of each agent,
  which the derivative of the cultural tolerance reads; it changes nothing else. Every
  agent is then updated with the five derivatives computed for it from the population as
  it stands after the contact pass and before any update (\<open>agents1\<close>) and from the
  society as it was before the step, so no update sees another agent's new value; and the
  three macroscopic variables are advanced with derivatives computed from that same
  population and society.
\<close>

theorem step_is_synchronous:
  "sim_agents sim \<noteq> [] \<Longrightarrow>
   (let (agents1, w1) = simulateInterculturalContacts (sim_agents sim) (sim_society sim) w;
        soc = sim_society sim;
        params = sim_parameters sim;
        dt = sim_dt sim;
        sim' = fst (step sim w)
    in map without_contacts agents1 = map without_contacts (sim_agents sim) \<and>
       sim_agents sim' =
         map (\<lambda>a. Agent_update a (computeAgentDerivatives agents1 a soc params) dt) agents1 \<and>
       institutionalQuality (sim_society sim') =
         max 0 (min 1 (institutionalQuality soc + computeInstitutionalQuality agents1 soc params * dt)) \<and>
       polarization (sim_society sim') =
         max 0 (min 1 (polarization soc + computePolarization agents1 soc params * dt)) \<and>
       perceivedThreat (sim_society sim') =
         max 0 (min 1 (perceivedThreat soc + computePerceivedThreat agents1 soc params * dt)))"
proof -
  obtain agents1 w1 where c: "simulateInterculturalContacts (sim_agents sim) (sim_society sim) w = (agents1, w1)"
    by (cases "simulateInterculturalContacts (sim_agents sim) (sim_society sim) w")
  have a: "map without_contacts agents1 = map without_contacts (sim_agents sim)"
    using contacts_touch_only_contacts [of "sim_agents sim" "sim_society sim" w] c by simp
  show ?thesis
    using a c
    by (simp add: step_def Let_def updateAgents_derived Society_update_def
        computeMacroDerivatives_def addToHistory_def)
qed

text \<open>The time loop of a realization in the sensitivity module updates in the same way.\<close>

lemma realization_body_is_synchronous:
  "(let (agents1, w1) = simulateInterculturalContacts agents society w
    in fst (realization_body params dt ((agents, society, time), w)) =
         (map (\<lambda>a. Agent_update a (computeAgentDerivatives agents1 a society params) dt) agents1,
          Society_update
            (map (\<lambda>a. Agent_update a (computeAgentDerivatives agents1 a society params) dt) agents1)
            society (computeMacroDerivatives agents1 society params) dt,
          time + dt))"
  by (simp add: realization_body_def Let_def case_prod_beta updateAgents_derived)

lemma pair_contacts:
  "simulateInterculturalContacts (sim_agents pairSimulator) (sim_society pairSimulator) exampleWorld =
     (sim_agents pairSimulator, exampleWorld\<lparr> rng_pos := 2 \<rparr>)"
  by (simp add: pairSimulator_def pairAgent_def new_Society_def exampleWorld_def Math_random_def)

text \<open>
  On the pair of agents each moves by the other's old adherence and both end at 0. Had
  the second update read the first agent's new value, the second agent would have
  stayed at -1/2.
\<close>

theorem step_is_synchronous_witness:
  "map democraticAdherence (sim_agents pairSimulator) = [1 / 2, - 1 / 2] \<and>
   map democraticAdherence (sim_agents (fst (step pairSimulator exampleWorld))) = [0, 0]"
proof -
  have ne: "sim_agents pairSimulator \<noteq> []" by (simp add: pairSimulator_def)
  have s: "sim_agents (fst (step pairSimulator exampleWorld)) =
      map (\<lambda>a. Agent_update a
              (computeAgentDerivatives (sim_agents pairSimulator) a (sim_society pairSimulator)
                 (sim_parameters pairSimulator)) (sim_dt pairSimulator))
        (sim_agents pairSimulator)"
    using step_is_synchronous [of pairSimulator exampleWorld, OF ne]
    by (simp add: pair_contacts Let_def)
  show ?thesis
    unfolding s
    by (simp add: pairSimulator_def pairAgent_def zeroParameters_def new_Society_def
        computeAgentDerivatives_def computeDemocraticAdherence_def computeCulturalTolerance_def
        computeSecurity_def computePermeability_def computeCivicEnergy_def
        getNeighborhoodAverage_def getAverage_def Agent_update_def clamp_def)
qed

lemma contact_drawn:
  "simulateInterculturalContacts (sim_agents contactSimulator) (sim_society contactSimulator) contactWorld =
     ([contactAgent\<lparr> positiveContacts := 1 / 4 \<rparr>], contactWorld\<lparr> rng_pos := 2 \<rparr>)"
  by (simp add: contactSimulator_def contactAgent_def new_Society_def contactWorld_def Math_random_def)

text \<open>
  C6 as stated fails for the two contact fields: they are mutated before the
  derivatives are evaluated, and the derivative of the cultural tolerance reads them.
  A lone agent of tolerance 1/2 that enters the step with no contact is given a positive
  contact of 1/4 by the contact pass, and its tolerance moves to 5/8; derivatives
  evaluated from the agent as it was before the step would have left it at 1/2.
\<close>

theorem derivative_reads_contact_of_same_step:
  "map positiveContacts (sim_agents contactSimulator) = [0] \<and>
   map toleranceCultural (sim_agents contactSimulator) = [1 / 2] \<and>
   map toleranceCultural (updatedFromPreStepState contactSimulator) = [1 / 2] \<and>
   map toleranceCultural (sim_agents (fst (step contactSimulator contactWorld))) = [5 / 8]"
proof -
  have s: "sim_agents (fst (step contactSimulator contactWorld)) =
      map (\<lambda>a. Agent_update a
              (computeAgentDerivatives [contactAgent\<lparr> positiveContacts := 1 / 4 \<rparr>] a
                 (sim_society contactSimulator) (sim_parameters contactSimulator))
              (sim_dt contactSimulator))
        [contactAgent\<lparr> positiveContacts := 1 / 4 \<rparr>]"
    by (simp add: step_def contact_drawn Let_def updateAgents_derived)
  show ?thesis
    unfolding s updatedFromPreStepState_def
    by (simp add: contactSimulator_def contactAgent_def zeroParameters_def new_Society_def
        computeAgentDerivatives_def computeDemocraticAdherence_def computeCulturalTolerance_def
        computeSecurity_def computePermeability_def computeCivicEnergy_def
        getNeighborhoodAverage_def getAverage_def Agent_update_def clamp_def)
qed

section \<open>A realization stops at the first threshold crossing\<close>

lemma earlyStop_iff:
  "earlyStop (fst sw) = (stateQuality sw \<le> 0.05 \<or> statePsi sw \<ge> 0.95)"
  by (cases sw) (auto simp: earlyStop_def stateQuality_def statePsi_def)

lemma stepsRun_0: "stepsRun params dt 0 sw = sw"
  by (simp add: stepsRun_def)

lemma stepsRun_Suc: "stepsRun params dt (Suc k) sw = stepsRun params dt k (realization_body params dt sw)"
  by (simp add: stepsRun_def funpow_swap1)

lemma realization_loop_finite:
  "stepNo \<le> N \<Longrightarrow>
   \<exists>k. stepNo + k \<le> N \<and>
       realization_loop params dt (enat N) stepNo sw = Some (stepsRun params dt k sw) \<and>
       (stepNo + k < N \<longrightarrow> 0 < k \<and> earlyStop (fst (stepsRun params dt k sw))) \<and>
       (\<forall>j. 0 < j \<and> j < k \<longrightarrow> \<not> earlyStop (fst (stepsRun params dt j sw)))"
proof (induction "N - stepNo" arbitrary: stepNo sw)
  case 0
  then have "stepNo = N" by simp
  then have "realization_loop params dt (enat N) stepNo sw = Some sw"
    by (subst realization_loop.simps) simp
  then show ?case using \<open>stepNo = N\<close> by (intro exI [of _ 0]) (simp add: stepsRun_0)
next
  case (Suc m)
  then have lt: "stepNo < N" by simp
  define sw' where "sw' = realization_body params dt sw"
  show ?case
  proof (cases "earlyStop (fst sw')")
    case True
    have "realization_loop params dt (enat N) stepNo sw = Some sw'"
      using lt True by (subst realization_loop.simps) (simp add: sw'_def Let_def)
    then show ?thesis
      using lt True
      by (intro exI [of _ 1]) (simp add: stepsRun_Suc stepsRun_0 sw'_def)
  next
    case False
    have unfold: "realization_loop params dt (enat N) stepNo sw =
                  realization_loop params dt (enat N) (stepNo + 1) sw'"
      using lt False by (subst realization_loop.simps) (simp add: sw'_def Let_def)
    have "m = N - (stepNo + 1)" "stepNo + 1 \<le> N" using Suc.hyps(2) lt by simp_all
    from Suc.hyps(1) [OF this, of sw']
    obtain k where k: "stepNo + 1 + k \<le> N"
      "realization_loop params dt (enat N) (stepNo + 1) sw' = Some (stepsRun params dt k sw')"
      "stepNo + 1 + k < N \<longrightarrow> 0 < k \<and> earlyStop (fst (stepsRun params dt k sw'))"
      "\<forall>j. 0 < j \<and> j < k \<longrightarrow> \<not> earlyStop (fst (stepsRun params dt j sw'))"
      by blast
    have shift: "stepsRun params dt (Suc j) sw = stepsRun params dt j sw'" for j
      by (simp add: stepsRun_Suc sw'_def)
    have early: "stepNo + Suc k < N \<longrightarrow> earlyStop (fst (stepsRun params dt (Suc k) sw))"
    proof (cases k)
      case 0
      then show ?thesis using k(3) by simp
    next
      case (Suc k')
      then show ?thesis using k(3) shift by simp
    qed
    have before: "\<not> earlyStop (fst (stepsRun params dt j sw))" if "0 < j" "j < Suc k" for j
    proof (cases j)
      case 0
      then show ?thesis using that by simp
    next
      case (Suc j')
      show ?thesis
      proof (cases j')
        case 0
        then show ?thesis using Suc False shift [of 0] by (simp add: stepsRun_0)
      next
        case (Suc j'')
        then have "0 < j' \<and> j' < k" using that \<open>j = Suc j'\<close> by simp
        then show ?thesis using k(4) shift [of j'] \<open>j = Suc j'\<close> by simp
      qed
    qed
    show ?thesis
      using k(1) k(2) unfold early before shift [of k]
      by (intro exI [of _ "Suc k"]) auto
  qed
qed

lemma initial1:
  "initialRealization 1 exampleWorld =
     (([\<lparr> agent_id = 0, agent_x = 1 / 2, agent_y = 1 / 2,
          wealth = 1 / 2, education = 1 / 2, security = 1 / 2,
          toleranceEconomic = 0, tolerancePhysical = 0, toleranceCultural = 0,
          civicEnergy = 1 / 2, permeability = 1 / 2, democraticAdherence = 0,
          positiveContacts = 0, negativeContacts = 0, neighbors = [] \<rparr>], new_Society, 0),
      exampleWorld\<lparr> rng_pos := 11 \<rparr>)"
  by (simp add: initialRealization_def exampleWorld_def Math_random_def new_Agent_def
      setupNeighborhoods_def neighborsOf_def Let_def)

lemma collapse_step_quality:
  "stateQuality (stepsRun collapseParameters 0.02 1 (initialRealization 1 exampleWorld)) = 0"
  unfolding initial1
  by (simp add: stepsRun_def realization_body_def stateQuality_def exampleWorld_def
      Math_random_def new_Society_def Let_def updateAgents_derived Society_update_def
      computeMacroDerivatives_def computeInstitutionalQuality_def collapseParameters_def
      new_Parameters_def getAverage_def Agent_update_def clamp_def
      computeAgentDerivatives_def computeDemocraticAdherence_def getNeighborhoodAverage_def)

lemma collapse_step_psi:
  "statePsi (stepsRun collapseParameters 0.02 1 (initialRealization 1 exampleWorld)) = 0"
  using collapse_step_quality
  by (cases "stepsRun collapseParameters 0.02 1 (initialRealization 1 exampleWorld)")
     (auto simp: statePsi_def stateQuality_def getOrderParameter_def)

lemma collapse_step_world:
  "snd (stepsRun collapseParameters 0.02 1 (initialRealization 1 exampleWorld)) =
     exampleWorld\<lparr> rng_pos := 12 \<rparr>"
  unfolding initial1
  by (simp add: stepsRun_def realization_body_def exampleWorld_def
      Math_random_def new_Society_def Let_def)

lemma Math_random_rng: "rng (snd (Math_random w)) = rng w"
  by (simp add: Math_random_def)

lemma new_Agent_alpha:
  "\<exists>m. democraticAdherence (fst (new_Agent i x y w)) = rng w m * 2 - 1"
  by (simp add: new_Agent_def Math_random_def Let_def) blast

lemma new_Agent_rng: "rng (snd (new_Agent i x y w)) = rng w"
  by (simp add: new_Agent_def Math_random_def Let_def)

lemma createAgents_rng: "rng (snd (createAgents scale i n w)) = rng w"
  by (induction n arbitrary: i w)
     (simp_all add: Let_def case_prod_beta new_Agent_rng Math_random_rng)

lemma createAgents_length: "length (fst (createAgents scale i n w)) = n"
  by (induction n arbitrary: i w) (simp_all add: Let_def case_prod_beta)

lemma createAgents_alpha:
  "(\<And>m. rng w m \<le> 1) \<Longrightarrow>
   list_all (\<lambda>a. democraticAdherence a \<le> 1) (fst (createAgents scale i n w))"
proof (induction n arbitrary: i w)
  case 0
  then show ?case by simp
next
  case (Suc n)
  define w2 where "w2 = snd (Math_random (snd (Math_random w)))"
  have r2: "rng w2 = rng w" by (simp add: w2_def Math_random_rng)
  define x where "x = fst (Math_random w) * scale"
  define y where "y = fst (Math_random (snd (Math_random w))) * scale"
  obtain m where "democraticAdherence (fst (new_Agent i x y w2)) = rng w2 m * 2 - 1"
    using new_Agent_alpha by blast
  then have a: "democraticAdherence (fst (new_Agent i x y w2)) \<le> 1"
    using Suc.prems [of m] by (simp add: r2)
  have "rng (snd (new_Agent i x y w2)) m \<le> 1" for m
    using Suc.prems by (simp add: new_Agent_rng r2)
  from Suc.IH [OF this]
  have "list_all (\<lambda>a. democraticAdherence a \<le> 1)
          (fst (createAgents scale (i + 1) n (snd (new_Agent i x y w2))))" .
  with a show ?case
    by (simp add: Let_def case_prod_beta w2_def x_def y_def)
qed

lemma foldl_sum_bound:
  "list_all (\<lambda>a. f a \<le> (1::real)) xs \<Longrightarrow>
   foldl (\<lambda>acc a. acc + f a) s xs \<le> s + real (length xs)"
proof (induction xs arbitrary: s)
  case Nil
  then show ?case by simp
next
  case (Cons a xs)
  then have "f a \<le> 1" and "list_all (\<lambda>a. f a \<le> 1) xs" by simp_all
  from Cons.IH [OF this(2), of "s + f a"] this(1)
  show ?case by simp
qed

lemma getAverage_le_1:
  assumes "list_all (\<lambda>a. f a \<le> 1) agents" "agents \<noteq> []"
  shows "getAverage agents f \<le> 1"
proof -
  have "foldl (\<lambda>acc a. acc + f a) 0 agents \<le> real (length agents)"
    using foldl_sum_bound [OF assms(1), of 0] by simp
  moreover have "0 < real (length agents)" using assms(2) by simp
  ultimately show ?thesis by (simp add: getAverage_def)
qed

lemma initial_not_stopped:
  assumes "0 < numAgents" "\<And>m. rng w m \<le> 1"
  shows "\<not> (stateQuality (initialRealization numAgents w) \<le> 0.05 \<or>
            statePsi (initialRealization numAgents w) \<ge> 0.95)"
proof -
  define agents0 where "agents0 = fst (createAgents 1 0 numAgents w)"
  define agents where "agents = setupNeighborhoods 0.2 agents0"
  have all0: "list_all (\<lambda>a. democraticAdherence a \<le> 1) agents0"
    unfolding agents0_def using assms(2) by (rule createAgents_alpha)
  have all: "list_all (\<lambda>a. democraticAdherence a \<le> 1) agents"
    using all0 by (simp add: agents_def setupNeighborhoods_def list_all_iff)
  have ne: "agents \<noteq> []"
    using assms(1) createAgents_length [of 1 0 numAgents w]
    by (auto simp: agents_def agents0_def setupNeighborhoods_def)
  have avg: "getAverage agents democraticAdherence \<le> 1"
    using all ne by (rule getAverage_le_1)
  have init: "initialRealization numAgents w = ((agents, new_Society, 0), snd (createAgents 1 0 numAgents w))"
    by (simp add: initialRealization_def agents_def agents0_def Let_def case_prod_beta)
  have "getAverage agents democraticAdherence * (7 / 10) \<le> 7 / 10"
    using avg by simp
  then show ?thesis
    by (simp add: init stateQuality_def statePsi_def getOrderParameter_def new_Society_def)
qed

text \<open>
  C4. A realization with a non-zero time step, at least one agent and random draws in
  [0, 1) performs some number \<open>k\<close> of integration steps, at most \<open>floor (tMax / dt)\<close>, and
  returns the order parameter of the state after the \<open>k\<close>-th step. If \<open>k\<close> is below that
  maximum, then after the \<open>k\<close>-th step institutionalQuality is at most 0.05 or the order
  parameter is at least 0.95; and in no earlier state of the run, the initial one
  included, was either threshold reached. So the first state at or beyond a threshold is
  the last one computed.
\<close>

theorem realization_stops_at_threshold:
  assumes "dt \<noteq> 0" and "0 < numAgents" and "\<And>m. 0 \<le> rng w m \<and> rng w m < 1"
  shows "\<exists>k. k \<le> nat \<lfloor>tMax / dt\<rfloor> \<and>
     singleRealization params tMax dt numAgents w =
       Some (statePsi (stepsRun params dt k (initialRealization numAgents w)),
             snd (stepsRun params dt k (initialRealization numAgents w))) \<and>
     (k < nat \<lfloor>tMax / dt\<rfloor> \<longrightarrow>
        (stateQuality (stepsRun params dt k (initialRealization numAgents w)) \<le> 0.05 \<or>
         statePsi (stepsRun params dt k (initialRealization numAgents w)) \<ge> 0.95)) \<and>
     (\<forall>j. j < k \<longrightarrow>
        \<not> (stateQuality (stepsRun params dt j (initialRealization numAgents w)) \<le> 0.05 \<or>
           statePsi (stepsRun params dt j (initialRealization numAgents w)) \<ge> 0.95))"
proof -
  define N where "N = nat \<lfloor>tMax / dt\<rfloor>"
  define init where "init = initialRealization numAgents w"
  have ns: "numStepsOf tMax dt = enat N"
    using assms(1) by (simp add: numStepsOf_def N_def)
  from realization_loop_finite [of 0 N params dt init]
  obtain k where k: "k \<le> N"
    "realization_loop params dt (enat N) 0 init = Some (stepsRun params dt k init)"
    "k < N \<longrightarrow> 0 < k \<and> earlyStop (fst (stepsRun params dt k init))"
    "\<forall>j. 0 < j \<and> j < k \<longrightarrow> \<not> earlyStop (fst (stepsRun params dt j init))"
    by auto
  have res: "singleRealization params tMax dt numAgents w =
      Some (statePsi (stepsRun params dt k init), snd (stepsRun params dt k init))"
    using k(2) ns
    by (cases "stepsRun params dt k init")
       (auto simp: singleRealization_def init_def statePsi_def Let_def)
  have zero: "\<not> (stateQuality init \<le> 0.05 \<or> statePsi init \<ge> 0.95)"
    unfolding init_def using assms(2) assms(3) by (intro initial_not_stopped) (auto simp: less_imp_le)
  have before: "\<not> (stateQuality (stepsRun params dt j init) \<le> 0.05 \<or>
                   statePsi (stepsRun params dt j init) \<ge> 0.95)" if "j < k" for j
  proof (cases "j = 0")
    case True
    then show ?thesis using zero by (simp add: stepsRun_0)
  next
    case False
    then show ?thesis using k(4) that earlyStop_iff [of "stepsRun params dt j init"] by simp
  qed
  have at: "k < N \<longrightarrow> (stateQuality (stepsRun params dt k init) \<le> 0.05 \<or>
                       statePsi (stepsRun params dt k init) \<ge> 0.95)"
    using k(3) earlyStop_iff [of "stepsRun params dt k init"] by simp
  show ?thesis
    using k(1) res at before unfolding N_def init_def by blast
qed

text \<open>
  With one agent and the collapsing parameters, institutionalQuality is 0 after the first
  of the 5000 possible steps; the realization ends there, with order parameter 0 and
  twelve random draws consumed (eleven to create the agent, one for the contact pass).
\<close>

theorem realization_stops_at_threshold_witness:
  "singleRealization collapseParameters 100 0.02 1 exampleWorld =
     Some (0, exampleWorld\<lparr> rng_pos := 12 \<rparr>) \<and>
   nat \<lfloor>(100::real) / 0.02\<rfloor> = 5000"
proof -
  define st where "st = (\<lambda>k. stepsRun collapseParameters 0.02 k (initialRealization 1 exampleWorld))"
  have h: "\<And>m. 0 \<le> rng exampleWorld m \<and> rng exampleWorld m < 1"
    by (simp add: exampleWorld_def)
  have N: "nat \<lfloor>(100::real) / 0.02\<rfloor> = 5000" by simp
  from realization_stops_at_threshold [of "0.02" 1 exampleWorld 100 collapseParameters, OF _ _ h]
  obtain k where k: "k \<le> 5000"
    "singleRealization collapseParameters 100 0.02 1 exampleWorld = Some (statePsi (st k), snd (st k))"
    "k < 5000 \<longrightarrow> (stateQuality (st k) \<le> 0.05 \<or> statePsi (st k) \<ge> 0.95)"
    "\<forall>j. j < k \<longrightarrow> \<not> (stateQuality (st j) \<le> 0.05 \<or> statePsi (st j) \<ge> 0.95)"
    unfolding st_def N by auto
  have stop1: "stateQuality (st 1) \<le> 0.05"
    using collapse_step_quality by (simp add: st_def)
  have init: "\<not> (stateQuality (st 0) \<le> 0.05 \<or> statePsi (st 0) \<ge> 0.95)"
    unfolding st_def stepsRun_0 using h by (intro initial_not_stopped) (auto simp: less_imp_le)
  have "k \<le> 1" using k(4) stop1 by (meson not_le_imp_less)
  moreover have "k \<noteq> 0"
  proof
    assume "k = 0"
    with k(3) have "stateQuality (st 0) \<le> 0.05 \<or> statePsi (st 0) \<ge> 0.95" by simp
    with init show False by blast
  qed
  ultimately have "k = 1" by simp
  then show ?thesis
    using k(2) N collapse_step_psi collapse_step_world by (simp add: st_def)
qed

section \<open>The threshold search\<close>

declare bisection.simps [simp del]

lemma milestones_append: "milestones (xs @ ys) = milestones xs @ milestones ys"
  by (simp add: milestones_def)

lemma milestones_log:
  "milestones (trace (console_log e w)) = milestones (trace w) @ milestoneOf e"
  by (simp add: console_log_def milestones_def)

text \<open>
  The simulation writes nothing to the trace, and with a non-zero time step every
  realization returns; so does their average, which may add a high-variance log line.
\<close>

lemma Math_random_trace: "trace (snd (Math_random w)) = trace w"
  by (simp add: Math_random_def)

lemma new_Agent_trace: "trace (snd (new_Agent i x y w)) = trace w"
  by (simp add: new_Agent_def Math_random_def Let_def)

lemma createAgents_trace: "trace (snd (createAgents scale i n w)) = trace w"
  by (induction n arbitrary: i w)
     (simp_all add: Let_def case_prod_beta new_Agent_trace Math_random_trace)

lemma initialRealization_trace: "trace (snd (initialRealization numAgents w)) = trace w"
  by (simp add: initialRealization_def Let_def case_prod_beta createAgents_trace)

lemma realization_body_trace: "trace (snd (realization_body params dt sw)) = trace (snd sw)"
  by (cases sw) (auto simp: realization_body_def Let_def case_prod_beta contacts_trace)

lemma stepsRun_trace: "trace (snd (stepsRun params dt k sw)) = trace (snd sw)"
  by (induction k arbitrary: sw) (simp_all add: stepsRun_0 stepsRun_Suc realization_body_trace)

lemma singleRealization_total:
  assumes "dt \<noteq> 0"
  shows "\<exists>psi w'. singleRealization params tMax dt numAgents w = Some (psi, w') \<and> trace w' = trace w"
proof -
  define N where "N = nat \<lfloor>tMax / dt\<rfloor>"
  have ns: "numStepsOf tMax dt = enat N"
    using assms by (simp add: numStepsOf_def N_def)
  from realization_loop_finite [of 0 N params dt "initialRealization numAgents w"]
  obtain k where k: "realization_loop params dt (enat N) 0 (initialRealization numAgents w) =
      Some (stepsRun params dt k (initialRealization numAgents w))"
    by auto
  obtain agents society t w' where st: "stepsRun params dt k (initialRealization numAgents w) = ((agents, society, t), w')"
    by (metis prod.exhaust)
  have "trace w' = trace w"
    using stepsRun_trace [of params dt k "initialRealization numAgents w"] st
    by (simp add: initialRealization_trace)
  then show ?thesis
    using k ns st by (simp add: singleRealization_def)
qed

lemma realizations_total:
  assumes "dt \<noteq> 0"
  shows "\<exists>psiValues w'. realizations params tMax dt numAgents k w = Some (psiValues, w') \<and>
           length psiValues = k \<and> trace w' = trace w"
proof (induction k arbitrary: w)
  case 0
  then show ?case by simp
next
  case (Suc k)
  obtain psi w1 where s: "singleRealization params tMax dt numAgents w = Some (psi, w1)" "trace w1 = trace w"
    using singleRealization_total [OF assms] by blast
  obtain psiValues w2 where r: "realizations params tMax dt numAgents k w1 = Some (psiValues, w2)"
      "length psiValues = k" "trace w2 = trace w1"
    using Suc.IH by blast
  show ?case using s r by simp
qed

lemma simulateToSteadyState_total:
  assumes "dt \<noteq> 0"
  shows "\<exists>avgPsi w'. simulateToSteadyState params tMax dt numAgents numRealizations w = Some (avgPsi, w') \<and>
           milestones (trace w') = milestones (trace w)"
proof -
  obtain psiValues w1 where r: "realizations params tMax dt numAgents numRealizations w = Some (psiValues, w1)"
      "trace w1 = trace w"
    using realizations_total [OF assms] by blast
  show ?thesis
    using r by (simp add: simulateToSteadyState_def Let_def milestones_log)
qed

lemma psiAt_total:
  "\<exists>v w'. psiAt baseParams paramName p w = Some (v, w') \<and> milestones (trace w') = milestones (trace w)"
  unfolding psiAt_def by (rule simulateToSteadyState_total) simp

text \<open>
  For an evaluator that always returns and leaves no milestone, the bisection loop
  returns and leaves no milestone either; in the real-number reading, where no midpoint
  overflows, it keeps its bracket and its candidate inside the initial range.
\<close>

lemma bisection_props:
  assumes ev: "\<And>p w. \<exists>v w'. ev p w = Some (v, w') \<and> milestones (trace w') = milestones (trace w)"
  shows "lo0 \<le> low \<Longrightarrow> low \<le> high \<Longrightarrow> high \<le> hi0 \<Longrightarrow> lo0 \<le> best \<Longrightarrow> best \<le> hi0 \<Longrightarrow>
     \<exists>low' high' best' it w'.
       bisection ev targetPsi tolerance extremum isIncreasing low high best iteration w =
         Some ((low', high', best', it), w') \<and>
       lo0 \<le> low' \<and> low' \<le> high' \<and> high' \<le> hi0 \<and> lo0 \<le> best' \<and> best' \<le> hi0 \<and>
       milestones (trace w') = milestones (trace w)"
proof (induction "30 - iteration" arbitrary: low high best iteration w)
  case 0
  then have "\<not> iteration < 30" by simp
  then have "bisection ev targetPsi tolerance extremum isIncreasing low high best iteration w =
      Some ((low, high, best, iteration), w)"
    by (subst bisection.simps) simp
  with 0 show ?case by simp
next
  case (Suc n)
  show ?case
  proof (cases "iteration < 30 \<and> high - low > tolerance * 0.01")
    case False
    then have "bisection ev targetPsi tolerance extremum isIncreasing low high best iteration w =
        Some ((low, high, best, iteration), w)"
      by (subst bisection.simps) auto
    with Suc.prems show ?thesis by simp
  next
    case True
    define mid where "mid = (low + high) / 2"
    obtain psiMid w1 where e: "ev mid w = Some (psiMid, w1)"
        and t1: "milestones (trace w1) = milestones (trace w)"
      using ev by blast
    define best' where "best' =
       (if satisfiesCondition targetPsi tolerance psiMid then
          (if extremum = ''min'' \<and> mid < best then mid
           else if extremum = ''max'' \<and> mid > best then mid
           else best)
        else best)"
    define low' where "low' = (if isIncreasing then (if psiMid < targetPsi then mid else low)
                               else (if psiMid < targetPsi then low else mid))"
    define high' where "high' = (if isIncreasing then (if psiMid < targetPsi then high else mid)
                                 else (if psiMid < targetPsi then mid else high))"
    have unfold: "bisection ev targetPsi tolerance extremum isIncreasing low high best iteration w =
        bisection ev targetPsi tolerance extremum isIncreasing low' high' best' (iteration + 1) w1"
      using True e
      by (subst bisection.simps) (simp add: mid_def best'_def low'_def high'_def Let_def)
    have m: "low \<le> mid" "mid \<le> high" using Suc.prems(2) by (simp_all add: mid_def)
    have b: "lo0 \<le> low'" "low' \<le> high'" "high' \<le> hi0" "lo0 \<le> best'" "best' \<le> hi0"
      using m Suc.prems by (auto simp: low'_def high'_def best'_def)
    have n: "n = 30 - (iteration + 1)" using Suc.hyps(2) by simp
    have "\<exists>low'' high'' best'' it w'.
       bisection ev targetPsi tolerance extremum isIncreasing low' high' best' (iteration + 1) w1 =
         Some ((low'', high'', best'', it), w') \<and>
       lo0 \<le> low'' \<and> low'' \<le> high'' \<and> high'' \<le> hi0 \<and> lo0 \<le> best'' \<and> best'' \<le> hi0 \<and>
       milestones (trace w') = milestones (trace w1)"
      by (rule Suc.hyps(1) [OF n b])
    with t1 unfold show ?thesis by auto
  qed
qed

lemma findParameterForPsi_with_props:
  assumes ev: "\<And>p w. \<exists>v w'. ev p w = Some (v, w') \<and> milestones (trace w') = milestones (trace w)"
    and le: "pMin \<le> pMax"
  shows "\<exists>r w'. findParameterForPsi_with ev paramName targetPsi pMin pMax tolerance extremum w = Some (r, w') \<and>
           pMin \<le> r \<and> r \<le> pMax \<and>
           milestones (trace w') =
             milestones (trace w) @ [SearchStarted paramName targetPsi extremum, SearchFinished]"
proof -
  obtain psiMin w1 where e1: "ev pMin w = Some (psiMin, w1)"
      and t1: "milestones (trace w1) = milestones (trace w)"
    using ev by blast
  obtain psiMax w2 where e2: "ev pMax w1 = Some (psiMax, w2)"
      and t2: "milestones (trace w2) = milestones (trace w1)"
    using ev by blast
  define isIncreasing where "isIncreasing = (psiMax > psiMin)"
  define w3 where "w3 = console_log (SearchLog paramName targetPsi extremum pMin psiMin pMax psiMax isIncreasing) w2"
  have t3: "milestones (trace w3) = milestones (trace w) @ [SearchStarted paramName targetPsi extremum]"
    by (simp add: w3_def milestones_log t1 t2)
  show ?thesis
  proof (cases "targetPsi < min psiMin psiMax \<or> targetPsi > max psiMin psiMax")
    case True
    then show ?thesis
      using e1 e2 le t3
      by (auto simp: findParameterForPsi_with_def Let_def outOfReachBound_def milestones_log
          w3_def isIncreasing_def)
  next
    case False
    define best0 where "best0 = (if extremum = ''min'' then pMax else pMin)"
    have b0: "pMin \<le> best0" "best0 \<le> pMax" using le by (simp_all add: best0_def)
    have "\<exists>low high best it w4.
       bisection ev targetPsi tolerance extremum isIncreasing pMin pMax best0 0 w3 =
         Some ((low, high, best, it), w4) \<and>
       pMin \<le> low \<and> low \<le> high \<and> high \<le> pMax \<and> pMin \<le> best \<and> best \<le> pMax \<and>
       milestones (trace w4) = milestones (trace w3)"
      by (rule bisection_props [OF ev order_refl le order_refl b0])
    then obtain low high best it w4 where
      bis: "bisection ev targetPsi tolerance extremum isIncreasing pMin pMax best0 0 w3 = Some ((low, high, best, it), w4)"
      and bd: "pMin \<le> low" "low \<le> high" "high \<le> pMax" "pMin \<le> best" "best \<le> pMax"
      and t4: "milestones (trace w4) = milestones (trace w3)"
      by blast
    define finalMid where "finalMid = (low + high) / 2"
    obtain psiFinal w5 where e5: "ev finalMid w4 = Some (psiFinal, w5)"
        and t5: "milestones (trace w5) = milestones (trace w4)"
      using ev by blast
    define result where "result =
       (if \<bar>psiFinal - targetPsi\<bar> < tolerance then
          (if extremum = ''min'' then min best finalMid else max best finalMid)
        else (if best \<noteq> (if extremum = ''min'' then high else low) then best else finalMid))"
    have fm: "pMin \<le> finalMid" "finalMid \<le> pMax" using bd by (simp_all add: finalMid_def)
    have r: "pMin \<le> result" "result \<le> pMax"
      using fm bd by (auto simp: result_def)
    have "findParameterForPsi_with ev paramName targetPsi pMin pMax tolerance extremum w =
        Some (result, console_log (FoundLog paramName result psiFinal it) w5)"
      unfolding findParameterForPsi_with_def
      by (simp only: e1 e2 option.case prod.case Let_def if_not_P [OF False]
          bis [unfolded w3_def isIncreasing_def best0_def] e5 [unfolded finalMid_def]
          result_def finalMid_def)
    then show ?thesis
      using r t3 t4 t5 by (simp add: milestones_log)
  qed
qed

text \<open>
  C2. Let \<open>psiMin\<close> and \<open>psiMax\<close> be the order parameters measured at \<open>pMin\<close> and at \<open>pMax\<close>.
  When the target lies below both or above both, the search returns one of the two
  bounds, chosen by the requested extremum and by the measured direction
  (\<open>psiMax > psiMin\<close>): for extremum \<open>min\<close>, \<open>pMin\<close> if increasing and \<open>pMax\<close> otherwise; for
  extremum \<open>max\<close>, \<open>pMax\<close> if increasing and \<open>pMin\<close> otherwise. The distance of the
  measured values to the target plays no part. This holds for every way of evaluating
  the order parameter, the averaged simulation of \<open>findParameterForPsi\<close> included.
\<close>

theorem out_of_reach_returns_bound:
  assumes "ev pMin w = Some (psiMin, w1)" and "ev pMax w1 = Some (psiMax, w2)"
    and "targetPsi < min psiMin psiMax \<or> targetPsi > max psiMin psiMax"
  shows "\<exists>w'. findParameterForPsi_with ev paramName targetPsi pMin pMax tolerance extremum w =
           Some (if extremum = ''min'' then (if psiMax > psiMin then pMin else pMax)
                 else (if psiMax > psiMin then pMax else pMin), w')"
  using assms by (auto simp: findParameterForPsi_with_def Let_def outOfReachBound_def)

text \<open>The same rule, read on \<open>findParameterForPsi\<close> itself.\<close>

lemma findParameterForPsi_out_of_reach:
  assumes "psiAt baseParams paramName pMin w = Some (psiMin, w1)"
    and "psiAt baseParams paramName pMax w1 = Some (psiMax, w2)"
    and "targetPsi < min psiMin psiMax \<or> targetPsi > max psiMin psiMax"
  shows "\<exists>w'. findParameterForPsi paramName targetPsi baseParams pMin pMax tolerance extremum w =
           Some (outOfReachBound extremum (psiMax > psiMin) pMin pMax, w')"
  using assms by (auto simp: findParameterForPsi_def findParameterForPsi_with_def Let_def)

text \<open>
  With an order parameter rising from 0.1 at 0 to 0.5 at 2 and target 0, the search for
  the \<open>max\<close> extremum returns 2 although the value measured at 0 is the nearer one; the
  search for the \<open>min\<close> extremum returns 0. With the falling order parameter the \<open>max\<close>
  search returns 0 although the value measured at 2 is the nearer one.
\<close>

theorem out_of_reach_returns_bound_witness:
  "(\<exists>w'. findParameterForPsi_with (linearPsi 0.1 0.2) ''beta1'' 0 0 2 0.02 ''max'' exampleWorld = Some (2, w')) \<and>
   nearestBound 0 0.1 0.5 0 2 = 0 \<and>
   (\<exists>w'. findParameterForPsi_with (linearPsi 0.1 0.2) ''beta1'' 0 0 2 0.02 ''min'' exampleWorld = Some (0, w')) \<and>
   (\<exists>w'. findParameterForPsi_with (linearPsi 0.5 (- 0.2)) ''beta2'' 0 0 2 0.02 ''max'' exampleWorld = Some (0, w')) \<and>
   nearestBound 0 0.5 0.1 0 2 = 2"
  using out_of_reach_returns_bound [of "linearPsi 0.1 0.2" 0 exampleWorld "0.1" exampleWorld 2 "0.5" exampleWorld 0 "''beta1''" "0.02" "''max''"]
    out_of_reach_returns_bound [of "linearPsi 0.1 0.2" 0 exampleWorld "0.1" exampleWorld 2 "0.5" exampleWorld 0 "''beta1''" "0.02" "''min''"]
    out_of_reach_returns_bound [of "linearPsi 0.5 (- 0.2)" 0 exampleWorld "0.5" exampleWorld 2 "0.1" exampleWorld 0 "''beta2''" "0.02" "''max''"]
  by (simp add: linearPsi_def nearestBound_def)

text \<open>
  C7. In the bisection loop the candidate test for target 0 is the one-sided
  \<open>psiMid \<le> 0 + tolerance\<close>, and for target 0.3 the two-sided
  \<open>0.3 - tolerance \<le> psiMid \<le> 0.3 + tolerance\<close>. The two are not the same formula: a
  midpoint whose order parameter is 0.5 below the target passes the test for target 0
  and fails it for target 0.3, and one pass through the loop records the midpoint as
  candidate in the first case only.
\<close>

theorem candidate_test_is_asymmetric:
  "satisfiesCondition 0 tolerance psiMid = (psiMid \<le> 0 + tolerance) \<and>
   satisfiesCondition 0.3 tolerance psiMid =
     (0.3 - tolerance \<le> psiMid \<and> psiMid \<le> 0.3 + tolerance) \<and>
   satisfiesCondition 0 0.02 (0 - 0.5) \<and> \<not> satisfiesCondition 0.3 0.02 (0.3 - 0.5) \<and>
   bisection (linearPsi (0 - 0.5) 0) 0 0.02 ''max'' True 0 2 0 29 w = Some ((1, 2, 1, 30), w) \<and>
   bisection (linearPsi (0.3 - 0.5) 0) 0.3 0.02 ''max'' True 0 2 0 29 w = Some ((1, 2, 0, 30), w)"
proof -
  have stop: "bisection ev targetPsi tol ext inc low high best 30 w0 = Some ((low, high, best, 30), w0)"
    for ev targetPsi tol ext inc low high best w0
    by (subst bisection.simps) simp
  have one: "bisection (linearPsi (0 - 0.5) 0) 0 0.02 ''max'' True 0 2 0 29 w = Some ((1, 2, 1, 30), w)"
    by (subst bisection.simps) (simp add: linearPsi_def satisfiesCondition_def stop)
  have two: "bisection (linearPsi (0.3 - 0.5) 0) 0.3 0.02 ''max'' True 0 2 0 29 w = Some ((1, 2, 0, 30), w)"
    by (subst bisection.simps) (simp add: linearPsi_def satisfiesCondition_def stop)
  show ?thesis
    using one two by (simp add: satisfiesCondition_def)
qed

subsection \<open>The range of the result, over numbers\<close>

declare bisection_num.simps [simp del]

text \<open>
  While twice the magnitude of either bound stays below the overflow threshold, every
  midpoint of two values between the bounds is the exact one.
\<close>

lemma midpoint_num:
  assumes "2 * \<bar>a\<bar> < overflowThreshold" "2 * \<bar>b\<bar> < overflowThreshold"
    and "a \<le> l" "l \<le> h" "h \<le> b"
  shows "js_half (js_add (Num l) (Num h)) = Num ((l + h) / 2)"
proof -
  have "\<bar>l + h\<bar> < overflowThreshold" using assms by (simp add: abs_less_iff) linarith
  then show ?thesis by (simp add: to_number_Num)
qed

lemma bisection_num_props:
  assumes ev: "\<And>r w. ev (Num r) w \<noteq> None"
    and ba: "2 * \<bar>a\<bar> < overflowThreshold" and bb: "2 * \<bar>b\<bar> < overflowThreshold"
  shows "a \<le> l \<Longrightarrow> l \<le> h \<Longrightarrow> h \<le> b \<Longrightarrow> a \<le> c \<Longrightarrow> c \<le> b \<Longrightarrow>
     \<exists>l' h' c' it w'.
       bisection_num ev targetPsi tolerance extremum isIncreasing (Num l) (Num h) (Num c) iteration w =
         Some ((Num l', Num h', Num c', it), w') \<and>
       a \<le> l' \<and> l' \<le> h' \<and> h' \<le> b \<and> a \<le> c' \<and> c' \<le> b"
proof (induction "30 - iteration" arbitrary: l h c iteration w)
  case 0
  then have "\<not> iteration < 30" by simp
  then have "bisection_num ev targetPsi tolerance extremum isIncreasing (Num l) (Num h) (Num c) iteration w =
      Some ((Num l, Num h, Num c, iteration), w)"
    by (subst bisection_num.simps) simp
  with 0 show ?case by simp
next
  case (Suc n)
  show ?case
  proof (cases "iteration < 30 \<and> js_gt (js_sub (Num h) (Num l)) (js_mul tolerance (Num 0.01))")
    case False
    then have "bisection_num ev targetPsi tolerance extremum isIncreasing (Num l) (Num h) (Num c) iteration w =
        Some ((Num l, Num h, Num c, iteration), w)"
      by (subst bisection_num.simps) auto
    with Suc.prems show ?thesis by simp
  next
    case True
    define m where "m = (l + h) / 2"
    have mid: "js_half (js_add (Num l) (Num h)) = Num m"
      unfolding m_def by (rule midpoint_num [OF ba bb Suc.prems(1,2,3)])
    obtain psiMid w1 where e: "ev (Num m) w = Some (psiMid, w1)"
      using ev [of m w] by (cases "ev (Num m) w") auto
    define c' where "c' =
       (if satisfiesCondition_num targetPsi tolerance psiMid then
          (if extremum = ''min'' \<and> m < c then m
           else if extremum = ''max'' \<and> m > c then m
           else c)
        else c)"
    define l' where "l' = (if isIncreasing then (if js_lt psiMid targetPsi then m else l)
                               else (if js_lt psiMid targetPsi then l else m))"
    define h' where "h' = (if isIncreasing then (if js_lt psiMid targetPsi then h else m)
                                 else (if js_lt psiMid targetPsi then m else h))"
    have unfold: "bisection_num ev targetPsi tolerance extremum isIncreasing (Num l) (Num h) (Num c) iteration w =
        bisection_num ev targetPsi tolerance extremum isIncreasing (Num l') (Num h') (Num c') (iteration + 1) w1"
      using True e
      by (subst bisection_num.simps)
         (simp only: mid simp_thms if_True option.case prod.case Let_def c'_def l'_def h'_def js_lt.simps
            js_gt_def if_distrib [of Num, symmetric])
    have mm: "l \<le> m" "m \<le> h" using Suc.prems(2) by (simp_all add: m_def)
    have b: "a \<le> l'" "l' \<le> h'" "h' \<le> b" "a \<le> c'" "c' \<le> b"
      using mm Suc.prems by (auto simp: l'_def h'_def c'_def)
    have n: "n = 30 - (iteration + 1)" using Suc.hyps(2) by simp
    have "\<exists>l'' h'' c'' it w'.
       bisection_num ev targetPsi tolerance extremum isIncreasing (Num l') (Num h') (Num c') (iteration + 1) w1 =
         Some ((Num l'', Num h'', Num c'', it), w') \<and>
       a \<le> l'' \<and> l'' \<le> h'' \<and> h'' \<le> b \<and> a \<le> c'' \<and> c'' \<le> b"
      by (rule Suc.hyps(1) [OF n b])
    with unfold show ?thesis by auto
  qed
qed

lemma findParameterForPsi_num_props:
  assumes ev: "\<And>r w. ev (Num r) w \<noteq> None"
    and le: "pMin \<le> pMax"
    and ba: "2 * \<bar>pMin\<bar> < overflowThreshold" and bb: "2 * \<bar>pMax\<bar> < overflowThreshold"
  shows "\<exists>r w'. findParameterForPsi_num ev paramName targetPsi (Num pMin) (Num pMax) tolerance extremum w =
             Some (Num r, w') \<and> pMin \<le> r \<and> r \<le> pMax"
proof -
  obtain psiMin w1 where e1: "ev (Num pMin) w = Some (psiMin, w1)"
    using ev [of pMin w] by (cases "ev (Num pMin) w") auto
  obtain psiMax w2 where e2: "ev (Num pMax) w1 = Some (psiMax, w2)"
    using ev [of pMax w1] by (cases "ev (Num pMax) w1") auto
  define isIncreasing where "isIncreasing = js_gt psiMax psiMin"
  define w3 where "w3 = console_log (SearchLog paramName targetPsi extremum (Num pMin) psiMin (Num pMax) psiMax isIncreasing) w2"
  show ?thesis
  proof (cases "js_lt targetPsi (Math_min psiMin psiMax) \<or> js_gt targetPsi (Math_max psiMin psiMax)")
    case True
    then show ?thesis
      using e1 e2 le
      by (auto simp: findParameterForPsi_num_def Let_def outOfReachBound_def)
  next
    case False
    define c0 where "c0 = (if extremum = ''min'' then pMax else pMin)"
    have c0: "(if extremum = ''min'' then Num pMax else Num pMin) = Num c0" by (simp add: c0_def)
    have b0: "pMin \<le> c0" "c0 \<le> pMax" using le by (simp_all add: c0_def)
    have "\<exists>l h c it w4.
       bisection_num ev targetPsi tolerance extremum isIncreasing (Num pMin) (Num pMax) (Num c0) 0 w3 =
         Some ((Num l, Num h, Num c, it), w4) \<and>
       pMin \<le> l \<and> l \<le> h \<and> h \<le> pMax \<and> pMin \<le> c \<and> c \<le> pMax"
      by (rule bisection_num_props [where ev = ev and a = pMin and b = pMax,
            OF ev ba bb order_refl le order_refl b0])
    then obtain l h c it w4 where
      bis: "bisection_num ev targetPsi tolerance extremum isIncreasing (Num pMin) (Num pMax) (Num c0) 0 w3 = Some ((Num l, Num h, Num c, it), w4)"
      and bd: "pMin \<le> l" "l \<le> h" "h \<le> pMax" "pMin \<le> c" "c \<le> pMax"
      by blast
    define fm where "fm = (l + h) / 2"
    have mid: "js_half (js_add (Num l) (Num h)) = Num fm"
      unfolding fm_def by (rule midpoint_num [OF ba bb bd(1,2,3)])
    obtain psiFinal w5 where e5: "ev (Num fm) w4 = Some (psiFinal, w5)"
      using ev [of fm w4] by (cases "ev (Num fm) w4") auto
    define result where "result =
       (if js_lt (Math_abs (js_sub psiFinal targetPsi)) tolerance then
          (if extremum = ''min'' then min c fm else max c fm)
        else (if c \<noteq> (if extremum = ''min'' then h else l) then c else fm))"
    have fmb: "pMin \<le> fm" "fm \<le> pMax" using bd by (simp_all add: fm_def)
    have r: "pMin \<le> result" "result \<le> pMax"
      using fmb bd by (auto simp: result_def)
    have res: "(if js_lt (Math_abs (js_sub psiFinal targetPsi)) tolerance then
                  (if extremum = ''min'' then Math_min (Num c) (Num fm) else Math_max (Num c) (Num fm))
                else (if \<not> js_eq (Num c) (if extremum = ''min'' then Num h else Num l)
                      then Num c else Num fm)) = Num result"
      by (auto simp: result_def Math_min_def Math_max_def js_eq_def min_def max_def)
    have "findParameterForPsi_num ev paramName targetPsi (Num pMin) (Num pMax) tolerance extremum w =
        Some (Num result, console_log (FoundLog paramName (Num result) psiFinal it) w5)"
      unfolding findParameterForPsi_num_def
      by (simp only: e1 e2 option.case prod.case Let_def if_not_P [OF False] c0
          bis [unfolded w3_def isIncreasing_def] mid e5 res)
    then show ?thesis
      using r by simp
  qed
qed

text \<open>
  C10, as amended. A call of \<open>findParameterForPsi\<close> with finite bounds \<open>pMin \<le> pMax\<close>,
  twice whose magnitudes stay below the overflow threshold (bounds of magnitude below
  \<open>2^1023 - 2^969\<close>, about \<open>8.98e307\<close>), returns a finite value in the closed interval from
  \<open>pMin\<close> to \<open>pMax\<close>: whatever the name, the extremum, the target and the tolerance,
  \<open>NaN\<close> and the infinities included, and whatever numbers the evaluations of the order
  parameter return, provided that they return on finite parameter values, as the
  averaged simulation does (lemma \<open>psiAt_total\<close>).
\<close>

theorem findParameterForPsi_num_in_range:
  assumes "\<And>r w. ev (Num r) w \<noteq> None"
    and "pMin \<le> pMax"
    and "2 * \<bar>pMin\<bar> < overflowThreshold" and "2 * \<bar>pMax\<bar> < overflowThreshold"
  shows "\<exists>r w'. findParameterForPsi_num ev paramName targetPsi (Num pMin) (Num pMax) tolerance
                   extremum w = Some (Num r, w') \<and> pMin \<le> r \<and> r \<le> pMax"
  using assms by (rule findParameterForPsi_num_props)

lemma identityPsi_total: "identityPsi p w \<noteq> None"
  by (simp add: identityPsi_def)

text \<open>A search between 0 and 2 with a tolerance that is not a number.\<close>

theorem findParameterForPsi_num_in_range_witness:
  "(0::real) \<le> 2 \<and> 2 * \<bar>0::real\<bar> < overflowThreshold \<and> 2 * \<bar>2::real\<bar> < overflowThreshold \<and>
   (\<exists>r w'. findParameterForPsi_num identityPsi ''beta1'' (Num 0.3) (Num 0) (Num 2) NaN
              ''min'' silentWorld = Some (Num r, w') \<and> 0 \<le> r \<and> r \<le> 2)"
  using findParameterForPsi_num_in_range [of identityPsi 0 2 "''beta1''" "Num 0.3" NaN "''min''" silentWorld]
  by (simp add: identityPsi_total overflowThreshold_def)

lemma sum_overflows: "to_number (2 * largeBound) = PosInfinity"
  by (rule to_number_overflow) (simp add: overflowThreshold_def largeBound_def)

lemma bisection_num_skip:
  "\<not> js_gt (js_sub high low) (js_mul tolerance (Num 0.01)) \<Longrightarrow>
   bisection_num ev targetPsi tolerance extremum isIncreasing low high bestCandidate iteration w =
     Some ((low, high, bestCandidate, iteration), w)"
  by (subst bisection_num.simps) simp

lemma constantPsi_returns: "constantPsi v p w = Some (v, w)"
  by (simp add: constantPsi_def)

text \<open>
  C10 as stated fails: the midpoint \<open>(low + high) / 2\<close> overflows. With
  \<open>pMin = pMax = 1.7e308\<close> and an order parameter that equals the target 0.3 everywhere,
  the target lies in the measured range, the loop is skipped because \<open>high - low\<close> is 0,
  the final midpoint is \<open>Infinity\<close>, and the search for the maximum returns
  \<open>Math.max(bestCandidate, finalMid)\<close>, which is \<open>Infinity\<close> and above \<open>pMax\<close>.
\<close>

theorem midpoint_overflow_leaves_range:
  "map_option fst (findParameterForPsi_num (constantPsi (Num 0.3)) ''beta1'' (Num 0.3)
      (Num largeBound) (Num largeBound) (Num 0.02) ''max'' silentWorld) = Some PosInfinity \<and>
   \<not> js_le PosInfinity (Num largeBound)"
  unfolding findParameterForPsi_num_def
  by (simp add: constantPsi_returns Let_def js_gt_def js_sub_def
      Math_min_def Math_max_def bisection_num_skip sum_overflows to_number_small
      js_le_def js_eq_def)

text \<open>
  The same holds whatever the evaluations return, as long as the target lies in the
  range measured at the two bounds and the tolerance is not negative: the search for the
  maximum between \<open>1.7e308\<close> and \<open>1.7e308\<close> returns \<open>Infinity\<close> on either branch of
  its last test.
\<close>

lemma midpoint_overflow_whatever_psi:
  assumes e1: "ev (Num largeBound) w = Some (psiMin, w1)"
    and e2: "ev (Num largeBound) w1 = Some (psiMax, w2)"
    and inside: "\<not> js_lt targetPsi (Math_min psiMin psiMax)" "\<not> js_gt targetPsi (Math_max psiMin psiMax)"
    and tol: "\<not> js_lt tolerance (Num 0)"
    and e5: "ev PosInfinity
               (console_log (SearchLog paramName targetPsi ''max'' (Num largeBound) psiMin
                               (Num largeBound) psiMax (js_gt psiMax psiMin)) w2) =
             Some (psiFinal, w5)"
  shows "map_option fst (findParameterForPsi_num ev paramName targetPsi (Num largeBound)
            (Num largeBound) tolerance ''max'' w) = Some PosInfinity"
proof -
  have skip: "\<not> js_gt (js_sub (Num largeBound) (Num largeBound)) (js_mul tolerance (Num 0.01))"
    using tol by (cases tolerance) (auto simp: js_gt_def js_sub_def to_number_small to_number_def
        infinityOfSign_def overflowThreshold_def zero_less_mult_iff)
  have fm: "js_half (js_add (Num largeBound) (Num largeBound)) = PosInfinity"
    by (simp add: sum_overflows)
  show ?thesis
    unfolding findParameterForPsi_num_def
    using inside
    by (simp only: e1 e2 option.case prod.case Let_def simp_thms if_False
          bisection_num_skip [OF skip] fm e5)
       (auto simp: Math_max_def js_eq_def)
qed

text \<open>
  The bound is on each endpoint and not on their sum: between 0 and \<open>1.5e308\<close> the first
  midpoint is exact, the second one, of \<open>7.5e307\<close> and \<open>1.5e308\<close>, is \<open>Infinity\<close>, and
  it is returned.
\<close>

lemma medium_fits: "to_number mediumBound = Num mediumBound"
  by (rule to_number_Num) (simp add: overflowThreshold_def mediumBound_def)

lemma medium_pos: "0 < mediumBound"
  by (simp add: mediumBound_def)

lemma medium_gap: "(1 / 5000 :: real) < mediumBound / 2"
  by (simp add: mediumBound_def)

lemma half_fits: "to_number (mediumBound / 2) = Num (mediumBound / 2)"
  by (rule to_number_Num) (simp add: overflowThreshold_def mediumBound_def)

lemma second_sum_overflows: "to_number (3 * mediumBound / 2) = PosInfinity"
  by (rule to_number_overflow) (simp add: overflowThreshold_def mediumBound_def)

lemma later_midpoint_overflows:
  "map_option fst (findParameterForPsi_num (constantPsi (Num 0.3)) ''beta1'' (Num 0.3)
      (Num 0) (Num mediumBound) (Num 0.02) ''max'' silentWorld) = Some PosInfinity"
proof -
  have s: "satisfiesCondition_num (Num 0.3) (Num 0.02) (Num 0.3)"
    by (simp add: satisfiesCondition_num_def js_eq_def js_ge_def js_le_def js_sub_def to_number_small)
  have b2: "bisection_num (constantPsi (Num 0.3)) (Num 0.3) (Num 0.02) ''max'' False
      PosInfinity (Num mediumBound) PosInfinity (Suc (Suc 0)) w =
      Some ((PosInfinity, Num mediumBound, PosInfinity, Suc (Suc 0)), w)" for w
    by (rule bisection_num_skip) (simp add: js_gt_def js_sub_def to_number_small)
  have b1: "bisection_num (constantPsi (Num 0.3)) (Num 0.3) (Num 0.02) ''max'' False
      (Num (mediumBound / 2)) (Num mediumBound) (Num (mediumBound / 2)) (Suc 0) w =
      Some ((PosInfinity, Num mediumBound, PosInfinity, Suc (Suc 0)), w)" for w
    using medium_gap medium_pos s b2
    by (subst bisection_num.simps)
       (simp add: constantPsi_returns Let_def js_gt_def js_sub_def to_number_small
          second_sum_overflows half_fits)
  have b0: "bisection_num (constantPsi (Num 0.3)) (Num 0.3) (Num 0.02) ''max'' False
      (Num 0) (Num mediumBound) (Num 0) 0 w =
      Some ((PosInfinity, Num mediumBound, PosInfinity, Suc (Suc 0)), w)" for w
    using medium_gap medium_pos s b1
    by (subst bisection_num.simps)
       (simp add: constantPsi_returns Let_def js_gt_def js_sub_def to_number_small medium_fits)
  show ?thesis
    unfolding findParameterForPsi_num_def
    using b0
    by (simp add: constantPsi_returns Let_def js_gt_def js_sub_def
        Math_min_def Math_max_def to_number_small js_le_def js_eq_def)
qed

section \<open>Averaging over realizations\<close>

lemma foldl_add_sum_list: "foldl (\<lambda>sum val. sum + val) s xs = s + sum_list (xs::real list)"
  by (induction xs arbitrary: s) simp_all

lemma psiAverage_sum_list: "psiAverage psiValues k = sum_list psiValues / real k"
  by (simp add: psiAverage_def foldl_add_sum_list)

text \<open>
  Every realization draws its own population: it reads at least eleven draws for each
  agent it creates, and leaves the read position of the stream behind them.
\<close>

lemma Math_random_pos: "rng_pos (snd (Math_random w)) = rng_pos w + 1"
  by (simp add: Math_random_def)

lemma new_Agent_pos: "rng_pos (snd (new_Agent i x y w)) = rng_pos w + 9"
  by (simp add: new_Agent_def Math_random_def Let_def)

lemma createAgents_pos: "rng_pos (snd (createAgents scale i n w)) = rng_pos w + 11 * n"
  by (induction n arbitrary: i w)
     (simp_all add: Let_def case_prod_beta Math_random_pos new_Agent_pos)

lemma initialRealization_pos:
  "rng_pos (snd (initialRealization numAgents w)) = rng_pos w + 11 * numAgents"
  by (simp add: initialRealization_def Let_def case_prod_beta createAgents_pos)

lemma contacts_pos:
  "rng_pos w \<le> rng_pos (snd (simulateInterculturalContacts agents soc w))"
proof (induction agents arbitrary: w)
  case Nil
  then show ?case by simp
next
  case (Cons a agents)
  show ?case
    using Cons.IH [of "snd (Math_random w)"] Cons.IH [of "snd (Math_random (snd (Math_random w)))"]
    by (simp add: Let_def case_prod_beta Math_random_pos)
qed

lemma realization_body_pos: "rng_pos (snd sw) \<le> rng_pos (snd (realization_body params dt sw))"
  by (cases sw) (simp add: realization_body_def Let_def case_prod_beta contacts_pos)

lemma stepsRun_pos: "rng_pos (snd sw) \<le> rng_pos (snd (stepsRun params dt k sw))"
proof (induction k)
  case 0
  then show ?case by (simp add: stepsRun_def)
next
  case (Suc k)
  have "rng_pos (snd (stepsRun params dt k sw))
        \<le> rng_pos (snd (realization_body params dt (stepsRun params dt k sw)))"
    by (rule realization_body_pos)
  with Suc show ?case by (simp add: stepsRun_def)
qed

lemma singleRealization_draws:
  assumes "dt \<noteq> 0"
  shows "\<exists>psi w'. singleRealization params tMax dt numAgents w = Some (psi, w') \<and>
           trace w' = trace w \<and> rng_pos w + 11 * numAgents \<le> rng_pos w'"
proof -
  define N where "N = nat \<lfloor>tMax / dt\<rfloor>"
  have ns: "numStepsOf tMax dt = enat N"
    using assms by (simp add: numStepsOf_def N_def)
  from realization_loop_finite [of 0 N params dt "initialRealization numAgents w"]
  obtain k where k: "realization_loop params dt (enat N) 0 (initialRealization numAgents w) =
      Some (stepsRun params dt k (initialRealization numAgents w))"
    by auto
  obtain agents society t w' where st: "stepsRun params dt k (initialRealization numAgents w) = ((agents, society, t), w')"
    by (metis prod.exhaust)
  have "trace w' = trace w"
    using stepsRun_trace [of params dt k "initialRealization numAgents w"] st
    by (simp add: initialRealization_trace)
  moreover have "rng_pos w + 11 * numAgents \<le> rng_pos w'"
    using stepsRun_pos [of "initialRealization numAgents w" params dt k] st
    by (simp add: initialRealization_pos)
  ultimately show ?thesis
    using k ns st by (simp add: singleRealization_def)
qed

text \<open>
  The loop over the realizations is a chain of \<open>singleRealization\<close> calls with the same
  arguments, each on the world that the one before has left.
\<close>

lemma realizations_chain:
  assumes "dt \<noteq> 0"
  shows "\<exists>psiValues ws.
           realizations params tMax dt numAgents k w = Some (psiValues, last ws) \<and>
           length psiValues = k \<and> length ws = Suc k \<and> ws ! 0 = w \<and>
           (\<forall>j<k. singleRealization params tMax dt numAgents (ws ! j) = Some (psiValues ! j, ws ! Suc j) \<and>
                  rng_pos (ws ! j) + 11 * numAgents \<le> rng_pos (ws ! Suc j)) \<and>
           trace (last ws) = trace w"
proof (induction k arbitrary: w)
  case 0
  show ?case by (rule exI [of _ "[]"], rule exI [of _ "[w]"]) simp
next
  case (Suc k)
  obtain psi w1 where s: "singleRealization params tMax dt numAgents w = Some (psi, w1)"
      "trace w1 = trace w" "rng_pos w + 11 * numAgents \<le> rng_pos w1"
    using singleRealization_draws [OF assms] by blast
  obtain psiValues ws where r: "realizations params tMax dt numAgents k w1 = Some (psiValues, last ws)"
      "length psiValues = k" "length ws = Suc k" "ws ! 0 = w1"
      "\<forall>j<k. singleRealization params tMax dt numAgents (ws ! j) = Some (psiValues ! j, ws ! Suc j) \<and>
                  rng_pos (ws ! j) + 11 * numAgents \<le> rng_pos (ws ! Suc j)"
      "trace (last ws) = trace w1"
    using Suc.IH [of w1] by blast
  have ne: "ws \<noteq> []" using r(3) by auto
  have chain: "singleRealization params tMax dt numAgents ((w # ws) ! j) =
                  Some ((psi # psiValues) ! j, (w # ws) ! Suc j) \<and>
               rng_pos ((w # ws) ! j) + 11 * numAgents \<le> rng_pos ((w # ws) ! Suc j)"
    if "j < Suc k" for j
  proof (cases j)
    case 0
    then show ?thesis using s r(4) by simp
  next
    case (Suc j')
    then have "j' < k" using that by simp
    then show ?thesis using r(5) Suc by simp
  qed
  show ?case
    apply (rule exI [of _ "psi # psiValues"], rule exI [of _ "w # ws"])
    using s r ne chain by simp
qed

text \<open>
  C3, as amended. With a non-zero time step and at least one agent,
  \<open>simulateToSteadyState\<close> with its default of 10 realizations runs ten independent
  realizations: ten calls of \<open>singleRealization\<close> with the arguments of the caller, the
  first on the world \<open>w\<close> of the call and each further one on the world the one before
  has left, every one of which returns the final order parameter of a population of
  \<open>numAgents\<close> agents that it has created from draws of its own. It returns the
  arithmetic mean of these ten values and nothing else. The standard deviation across
  the realizations is computed but not returned: it appears only in a console log line,
  and only when it exceeds 0.05.
\<close>

theorem simulateToSteadyState_returns_mean_only:
  assumes "dt \<noteq> 0" and "0 < numAgents"
  shows "\<exists>psiValues ws.
     length psiValues = 10 \<and> length ws = 11 \<and> ws ! 0 = w \<and>
     (\<forall>k<10. singleRealization params tMax dt numAgents (ws ! k) = Some (psiValues ! k, ws ! Suc k) \<and>
              rng_pos (ws ! k) + 11 * numAgents \<le> rng_pos (ws ! Suc k)) \<and>
     trace (ws ! 10) = trace w \<and>
     simulateToSteadyState params tMax dt numAgents 10 w =
       Some (sum_list psiValues / 10,
             if psiStdDev psiValues 10 > 0.05
             then (ws ! 10)\<lparr> trace := trace w @
                    [HighVarianceLog (psiStdDev psiValues 10) (sum_list psiValues / 10) psiValues] \<rparr>
             else ws ! 10)"
proof -
  obtain psiValues ws where r: "realizations params tMax dt numAgents 10 w = Some (psiValues, last ws)"
      "length psiValues = 10" "length ws = Suc 10" "ws ! 0 = w"
      "\<forall>j<10. singleRealization params tMax dt numAgents (ws ! j) = Some (psiValues ! j, ws ! Suc j) \<and>
                  rng_pos (ws ! j) + 11 * numAgents \<le> rng_pos (ws ! Suc j)"
      "trace (last ws) = trace w"
    using realizations_chain [OF assms(1), of params tMax numAgents 10 w] by blast
  have "ws \<noteq> []" using r(3) by auto
  then have l: "last ws = ws ! 10" using r(3) by (simp add: last_conv_nth)
  have "simulateToSteadyState params tMax dt numAgents 10 w =
       Some (sum_list psiValues / 10,
             if psiStdDev psiValues 10 > 0.05
             then (ws ! 10)\<lparr> trace := trace w @
                    [HighVarianceLog (psiStdDev psiValues 10) (sum_list psiValues / 10) psiValues] \<rparr>
             else ws ! 10)"
    using r(1,2,6) by (simp add: simulateToSteadyState_def Let_def psiAverage_sum_list console_log_def l)
  moreover have "trace (ws ! 10) = trace w" using r(6) l by simp
  ultimately show ?thesis using r(2,3,4,5) by auto
qed

text \<open>The call that every search makes: 75 agents, \<open>tMax = 100\<close>, \<open>dt = 0.02\<close>.\<close>

theorem simulateToSteadyState_returns_mean_only_witness:
  "\<exists>psiValues ws.
     length psiValues = 10 \<and> length ws = 11 \<and> ws ! 0 = exampleWorld \<and>
     (\<forall>k<10. singleRealization new_Parameters 100 0.02 75 (ws ! k) = Some (psiValues ! k, ws ! Suc k) \<and>
              rng_pos (ws ! k) + 11 * 75 \<le> rng_pos (ws ! Suc k)) \<and>
     trace (ws ! 10) = trace exampleWorld \<and>
     simulateToSteadyState new_Parameters 100 0.02 75 10 exampleWorld =
       Some (sum_list psiValues / 10,
             if psiStdDev psiValues 10 > 0.05
             then (ws ! 10)\<lparr> trace := trace exampleWorld @
                    [HighVarianceLog (psiStdDev psiValues 10) (sum_list psiValues / 10) psiValues] \<rparr>
             else ws ! 10)"
  using simulateToSteadyState_returns_mean_only
    [where dt = "0.02" and numAgents = 75 and params = new_Parameters and tMax = 100
       and w = exampleWorld]
  by simp

text \<open>
  With \<open>tMax = 0\<close> the time loop does not run, and the order parameter of a realization
  with a single agent is 0.7 times the adherence the agent was created with.
\<close>

lemma no_steps: "realization_loop params dt (numStepsOf 0 dt) 0 sw = Some sw"
  by (subst realization_loop.simps) (simp add: numStepsOf_def zero_enat_def)

lemma single_agent_no_steps:
  "singleRealization params 0 dt (Suc 0) w =
     Some ((rng w (rng_pos w + 10) * 2 - 1) * (7 / 10), w\<lparr> rng_pos := rng_pos w + 11 \<rparr>)"
  by (simp add: singleRealization_def no_steps Let_def initialRealization_def Math_random_def
      new_Agent_def setupNeighborhoods_def neighborsOf_def getOrderParameter_def getAverage_def
      new_Society_def eval_nat_numeral)

lemma realizations_no_steps:
  "realizations params 0 dt (Suc 0) k w =
     Some (map (\<lambda>j. (rng w (rng_pos w + 11 * j + 10) * 2 - 1) * (7 / 10)) [0..<k],
           w\<lparr> rng_pos := rng_pos w + 11 * k \<rparr>)"
proof (induction k arbitrary: w)
  case 0
  then show ?case by simp
next
  case (Suc k)
  have "map (\<lambda>j. (rng w (rng_pos w + 11 * j + 10) * 2 - 1) * (7 / 10)) [0..<Suc k] =
        (rng w (rng_pos w + 10) * 2 - 1) * (7 / 10) #
        map (\<lambda>j. (rng w (rng_pos w + 11 + 11 * j + 10) * 2 - 1) * (7 / 10)) [0..<k]"
    by (simp only: upt_conv_Cons [of 0 "Suc k"] map_Suc_upt [symmetric] list.map)
       (simp add: algebra_simps)
  then show ?case
    by (simp add: single_agent_no_steps Suc.IH algebra_simps del: upt_Suc)
qed

lemma upt_10: "[0..<10] = [0, 1, 2, 3, 4, 5, 6, 7, 8, 9]"
  by (simp add: eval_nat_numeral)

lemma sqrt_example: "sqrt (49 / 250000) = 7 / 500"
  by (rule real_sqrt_unique) (simp_all add: power2_eq_square)

text \<open>
  C3 as stated fails: the standard deviation does not reach the caller. Two calls with
  the same arguments, on the constant and on the alternating stream of draws, return the
  same value 0 and write nothing to the console, while the standard deviation across the
  ten realizations is 0 in the first and 7/500 in the second.
\<close>

theorem stdDev_not_surfaced:
  "simulateToSteadyState new_Parameters 0 0.02 1 10 exampleWorld =
     Some (0, exampleWorld\<lparr> rng_pos := 110 \<rparr>) \<and>
   simulateToSteadyState new_Parameters 0 0.02 1 10 alternatingWorld =
     Some (0, alternatingWorld\<lparr> rng_pos := 110 \<rparr>) \<and>
   trace (exampleWorld\<lparr> rng_pos := 110 \<rparr>) = trace (alternatingWorld\<lparr> rng_pos := 110 \<rparr>) \<and>
   realizations new_Parameters 0 0.02 1 10 exampleWorld =
     Some ([0, 0, 0, 0, 0, 0, 0, 0, 0, 0], exampleWorld\<lparr> rng_pos := 110 \<rparr>) \<and>
   psiStdDev [0, 0, 0, 0, 0, 0, 0, 0, 0, 0] 10 = 0 \<and>
   realizations new_Parameters 0 0.02 1 10 alternatingWorld =
     Some ([7 / 500, - 7 / 500, 7 / 500, - 7 / 500, 7 / 500, - 7 / 500, 7 / 500, - 7 / 500,
            7 / 500, - 7 / 500], alternatingWorld\<lparr> rng_pos := 110 \<rparr>) \<and>
   psiStdDev [7 / 500, - 7 / 500, 7 / 500, - 7 / 500, 7 / 500, - 7 / 500, 7 / 500, - 7 / 500,
              7 / 500, - 7 / 500] 10 = 7 / 500"
proof -
  have a: "realizations new_Parameters 0 0.02 1 10 exampleWorld =
     Some ([0, 0, 0, 0, 0, 0, 0, 0, 0, 0], exampleWorld\<lparr> rng_pos := 110 \<rparr>)"
    by (simp add: realizations_no_steps exampleWorld_def upt_10)
  have b: "realizations new_Parameters 0 0.02 1 10 alternatingWorld =
     Some ([7 / 500, - 7 / 500, 7 / 500, - 7 / 500, 7 / 500, - 7 / 500, 7 / 500, - 7 / 500,
            7 / 500, - 7 / 500], alternatingWorld\<lparr> rng_pos := 110 \<rparr>)"
    by (simp add: realizations_no_steps alternatingWorld_def upt_10)
  have sa: "psiStdDev [0, 0, 0, 0, 0, 0, 0, 0, 0, 0] 10 = 0"
    by (simp add: psiStdDev_def psiAverage_def)
  have sb: "psiStdDev [7 / 500, - 7 / 500, 7 / 500, - 7 / 500, 7 / 500, - 7 / 500, 7 / 500, - 7 / 500,
              7 / 500, - 7 / 500] 10 = 7 / 500"
    by (simp add: psiStdDev_def psiAverage_def power2_eq_square sqrt_example)
  have ra: "simulateToSteadyState new_Parameters 0 0.02 1 10 exampleWorld =
     Some (0, exampleWorld\<lparr> rng_pos := 110 \<rparr>)"
    by (simp only: simulateToSteadyState_def a option.case prod.case Let_def sa)
       (simp add: psiAverage_def)
  have rb: "simulateToSteadyState new_Parameters 0 0.02 1 10 alternatingWorld =
     Some (0, alternatingWorld\<lparr> rng_pos := 110 \<rparr>)"
    by (simp only: simulateToSteadyState_def b option.case prod.case Let_def sb)
       (simp add: psiAverage_def)
  show ?thesis
    using a b sa sb ra rb by (simp add: exampleWorld_def alternatingWorld_def)
qed

section \<open>The sweep: extrema and progress reports\<close>

lemma requestsOf_append: "requestsOf (xs @ ys) = requestsOf xs @ requestsOf ys"
  by (induction xs rule: requestsOf.induct) simp_all

lemma findParameterForPsi_milestones:
  assumes "pMin \<le> pMax"
  shows "\<exists>r w'. findParameterForPsi paramName targetPsi baseParams pMin pMax tolerance extremum w = Some (r, w') \<and>
           milestones (trace w') =
             milestones (trace w) @ [SearchStarted paramName targetPsi extremum, SearchFinished]"
  using findParameterForPsi_with_props [of "psiAt baseParams paramName", OF psiAt_total assms]
  unfolding findParameterForPsi_def by blast

lemma searchPair_milestones:
  assumes "param_min param \<le> param_max param"
  shows "\<exists>pA pD w'. searchPair baseParams param w = Some ((pA, pD), w') \<and>
           milestones (trace w') = milestones (trace w) @ pairMilestones param"
proof (cases "virtuous param")
  case True
  obtain pA w1 where a: "findParameterForPsi (param_key param) 0 baseParams (param_min param)
        (param_max param) 0.02 ''max'' w = Some (pA, w1)"
      "milestones (trace w1) = milestones (trace w) @ [SearchStarted (param_key param) 0 ''max'', SearchFinished]"
    using findParameterForPsi_milestones [OF assms] by blast
  obtain pD w2 where d: "findParameterForPsi (param_key param) 0.3 baseParams (param_min param)
        (param_max param) 0.02 ''min'' w1 = Some (pD, w2)"
      "milestones (trace w2) = milestones (trace w1) @ [SearchStarted (param_key param) 0.3 ''min'', SearchFinished]"
    using findParameterForPsi_milestones [OF assms] by blast
  have "searchPair baseParams param w = Some ((pA, pD), w2)"
    unfolding searchPair_def by (simp only: True if_True a(1) d(1) option.case prod.case)
  then show ?thesis using a(2) d(2) True by (simp add: pairMilestones_def)
next
  case False
  obtain pA w1 where a: "findParameterForPsi (param_key param) 0 baseParams (param_min param)
        (param_max param) 0.02 ''min'' w = Some (pA, w1)"
      "milestones (trace w1) = milestones (trace w) @ [SearchStarted (param_key param) 0 ''min'', SearchFinished]"
    using findParameterForPsi_milestones [OF assms] by blast
  obtain pD w2 where d: "findParameterForPsi (param_key param) 0.3 baseParams (param_min param)
        (param_max param) 0.02 ''max'' w1 = Some (pD, w2)"
      "milestones (trace w2) = milestones (trace w1) @ [SearchStarted (param_key param) 0.3 ''max'', SearchFinished]"
    using findParameterForPsi_milestones [OF assms] by blast
  have "searchPair baseParams param w = Some ((pA, pD), w2)"
    unfolding searchPair_def by (simp only: False if_False a(1) d(1) option.case prod.case)
  then show ?thesis using a(2) d(2) False by (simp add: pairMilestones_def)
qed

lemma analyzeLoop_trace:
  fixes proj :: "milestone list \<Rightarrow> 'a list"
  assumes hom: "\<And>xs ys. proj (xs @ ys) = proj xs @ proj ys"
    and cb: "\<And>f k j t w0. progressCallback = Some f \<Longrightarrow>
               proj (milestones (trace (f k j t w0))) =
               proj (milestones (trace w0)) @ proj [CallbackInvoked k j t]"
    and none: "\<And>k j t. progressCallback = None \<Longrightarrow> proj [CallbackInvoked k j t] = []"
  shows "list_all (\<lambda>p. param_min p \<le> param_max p) ps \<Longrightarrow>
     \<exists>res w'. analyzeLoop baseParams progressCallback totalCount i ps results w = Some (res, w') \<and>
       proj (milestones (trace w')) =
         proj (milestones (trace w)) @ proj (sweepMilestones totalCount i ps)"
proof (induction ps arbitrary: i results w)
  case Nil
  have "proj [] = []" using hom [of "[]" "[]"] by simp
  then show ?case by simp
next
  case (Cons param rest)
  then have ok: "param_min param \<le> param_max param"
    and oks: "list_all (\<lambda>p. param_min p \<le> param_max p) rest" by simp_all
  define w1 where "w1 = console_log (ParamHeaderLog (param_key param) (virtuous param)
                              (param_min param) (param_max param)) w"
  define w2 where "w2 = (case progressCallback of
                  None \<Rightarrow> w1
                | Some callback \<Rightarrow> callback (param_key param) (i + 1) totalCount w1)"
  have t1: "milestones (trace w1) = milestones (trace w)"
    by (simp add: w1_def milestones_log)
  have t2: "proj (milestones (trace w2)) =
            proj (milestones (trace w)) @ proj [CallbackInvoked (param_key param) (i + 1) totalCount]"
  proof (cases progressCallback)
    case None
    then show ?thesis using none [OF None] by (simp add: w2_def t1)
  next
    case (Some f)
    then show ?thesis using cb [OF Some] by (simp add: w2_def t1)
  qed
  obtain pA pD w3 where sp: "searchPair baseParams param w2 = Some ((pA, pD), w3)"
      and t3: "milestones (trace w3) = milestones (trace w2) @ pairMilestones param"
    using searchPair_milestones [OF ok] by blast
  define w4 where "w4 = console_log (ParamResultLog (param_key param) pA pD \<bar>pD - pA\<bar>) w3"
  define results' where "results' = results @
                    [(param_key param,
                      \<lparr> autocratic = pA, democratic = pD,
                        zone_min = min pA pD,
                        zone_max = max pA pD,
                        zone_virtuous = virtuous param \<rparr>)]"
  have t4: "milestones (trace w4) = milestones (trace w3)"
    by (simp add: w4_def milestones_log)
  obtain res w' where l: "analyzeLoop baseParams progressCallback totalCount (i + 1) rest results' w4 = Some (res, w')"
      and t5: "proj (milestones (trace w')) =
         proj (milestones (trace w4)) @ proj (sweepMilestones totalCount (i + 1) rest)"
    using Cons.IH [OF oks] by blast
  have unfold: "analyzeLoop baseParams progressCallback totalCount i (param # rest) results w = Some (res, w')"
    using sp l by (simp add: Let_def w1_def [symmetric] w2_def [symmetric] w4_def results'_def)
  have "proj (milestones (trace w')) =
        proj (milestones (trace w)) @ proj [CallbackInvoked (param_key param) (i + 1) totalCount] @
        proj (pairMilestones param) @ proj (sweepMilestones totalCount (i + 1) rest)"
    by (simp add: t5 t4 t3 hom t2)
  also have "\<dots> = proj (milestones (trace w)) @ proj (sweepMilestones totalCount i (param # rest))"
    using hom [of "[CallbackInvoked (param_key param) (i + 1) totalCount]"
                  "pairMilestones param @ sweepMilestones totalCount (i + 1) rest"]
    by (simp add: hom)
  finally show ?case using unfold by blast
qed

lemma analyzeSensitivity_trace:
  fixes proj :: "milestone list \<Rightarrow> 'a list"
  assumes hom: "\<And>xs ys. proj (xs @ ys) = proj xs @ proj ys"
    and cb: "\<And>f k j t w0. progressCallback = Some f \<Longrightarrow>
               proj (milestones (trace (f k j t w0))) =
               proj (milestones (trace w0)) @ proj [CallbackInvoked k j t]"
    and none: "\<And>k j t. progressCallback = None \<Longrightarrow> proj [CallbackInvoked k j t] = []"
  shows "\<exists>res w'. analyzeSensitivity baseParams progressCallback w = Some (res, w') \<and>
       proj (milestones (trace w')) =
         proj (milestones (trace w)) @ proj (sweepMilestones 7 0 parametersToAnalyze)"
proof -
  have ok: "list_all (\<lambda>p. param_min p \<le> param_max p) parametersToAnalyze"
    by (simp add: parametersToAnalyze_def)
  have len: "length parametersToAnalyze = 7" by (simp add: parametersToAnalyze_def)
  have "\<exists>res w'. analyzeLoop baseParams progressCallback 7 0 parametersToAnalyze []
        (console_log AnalysisStartLog w) = Some (res, w') \<and>
       proj (milestones (trace w')) =
         proj (milestones (trace (console_log AnalysisStartLog w))) @
         proj (sweepMilestones 7 0 parametersToAnalyze)"
  proof (rule analyzeLoop_trace)
    show "proj (xs @ ys) = proj xs @ proj ys" for xs ys by (rule hom)
    show "proj (milestones (trace (f k j t w0))) =
          proj (milestones (trace w0)) @ proj [CallbackInvoked k j t]"
      if "progressCallback = Some f" for f k j t w0 using that by (rule cb)
    show "proj [CallbackInvoked k j t] = []" if "progressCallback = None" for k j t
      using that by (rule none)
    show "list_all (\<lambda>p. param_min p \<le> param_max p) parametersToAnalyze" by (rule ok)
  qed
  then obtain res w' where l: "analyzeLoop baseParams progressCallback 7 0 parametersToAnalyze []
        (console_log AnalysisStartLog w) = Some (res, w')"
      and t: "proj (milestones (trace w')) =
         proj (milestones (trace (console_log AnalysisStartLog w))) @
         proj (sweepMilestones 7 0 parametersToAnalyze)"
    by blast
  show ?thesis
    using l t by (simp add: analyzeSensitivity_def Let_def len milestones_log)
qed


lemma sweep_explicit:
  "sweepMilestones 7 0 parametersToAnalyze =
     [CallbackInvoked ''beta1'' 1 7,
      SearchStarted ''beta1'' 0 ''max'', SearchFinished,
      SearchStarted ''beta1'' 0.3 ''min'', SearchFinished,
      CallbackInvoked ''beta2'' 2 7,
      SearchStarted ''beta2'' 0 ''min'', SearchFinished,
      SearchStarted ''beta2'' 0.3 ''max'', SearchFinished,
      CallbackInvoked ''beta3'' 3 7,
      SearchStarted ''beta3'' 0 ''max'', SearchFinished,
      SearchStarted ''beta3'' 0.3 ''min'', SearchFinished,
      CallbackInvoked ''beta4'' 4 7,
      SearchStarted ''beta4'' 0 ''min'', SearchFinished,
      SearchStarted ''beta4'' 0.3 ''max'', SearchFinished,
      CallbackInvoked ''mu1'' 5 7,
      SearchStarted ''mu1'' 0 ''max'', SearchFinished,
      SearchStarted ''mu1'' 0.3 ''min'', SearchFinished,
      CallbackInvoked ''mu2'' 6 7,
      SearchStarted ''mu2'' 0 ''min'', SearchFinished,
      SearchStarted ''mu2'' 0.3 ''max'', SearchFinished,
      CallbackInvoked ''mu3'' 7 7,
      SearchStarted ''mu3'' 0 ''min'', SearchFinished,
      SearchStarted ''mu3'' 0.3 ''max'', SearchFinished]"
  by (simp add: parametersToAnalyze_def pairMilestones_def)

lemma recordProgress_milestones:
  "milestones (trace (recordProgress k j t w)) = milestones (trace w) @ [CallbackInvoked k j t]"
  by (simp add: recordProgress_def milestones_def)

text \<open>
  C1. \<open>analyzeSensitivity\<close> returns, and the searches it starts are, in order, for every
  tunable parameter: if the parameter is virtuous, the search for target 0 requesting the
  \<open>max\<close> extremum and then the search for target 0.3 requesting the \<open>min\<close> extremum; if it
  is harmful, the search for target 0 requesting \<open>min\<close> and then the search for target
  0.3 requesting \<open>max\<close>. The extremum is read from the log line that the search itself
  writes on entry. This holds without a callback and with any callback that writes no
  such log line of its own.
\<close>

theorem sweep_pairs_extrema_with_classification:
  assumes "\<And>f k j t w0. progressCallback = Some f \<Longrightarrow>
             searchRequests (trace (f k j t w0)) = searchRequests (trace w0)"
  shows "\<exists>results w'. analyzeSensitivity baseParams progressCallback w = Some (results, w') \<and>
     searchRequests (trace w') = searchRequests (trace w) @
       concat (map (\<lambda>param.
                 if virtuous param
                 then [(param_key param, 0, ''max''), (param_key param, 0.3, ''min'')]
                 else [(param_key param, 0, ''min''), (param_key param, 0.3, ''max'')])
               parametersToAnalyze)"
proof -
  have "\<exists>res w'. analyzeSensitivity baseParams progressCallback w = Some (res, w') \<and>
       requestsOf (milestones (trace w')) =
         requestsOf (milestones (trace w)) @ requestsOf (sweepMilestones 7 0 parametersToAnalyze)"
  proof (rule analyzeSensitivity_trace)
    show "requestsOf (xs @ ys) = requestsOf xs @ requestsOf ys" for xs ys
      by (rule requestsOf_append)
    show "requestsOf (milestones (trace (f k j t w0))) =
          requestsOf (milestones (trace w0)) @ requestsOf [CallbackInvoked k j t]"
      if "progressCallback = Some f" for f k j t w0
      using assms [OF that, of k j t w0] by (simp add: searchRequests_def)
    show "requestsOf [CallbackInvoked k j t] = []" for k j t by simp
  qed
  then show ?thesis
    unfolding searchRequests_def sweep_explicit by (simp add: parametersToAnalyze_def)
qed

theorem sweep_pairs_extrema_with_classification_witness:
  "\<exists>results w'. analyzeSensitivity new_Parameters (Some recordProgress) exampleWorld = Some (results, w') \<and>
     searchRequests (trace w') =
       [(''beta1'', 0, ''max''), (''beta1'', 0.3, ''min''),
        (''beta2'', 0, ''min''), (''beta2'', 0.3, ''max''),
        (''beta3'', 0, ''max''), (''beta3'', 0.3, ''min''),
        (''beta4'', 0, ''min''), (''beta4'', 0.3, ''max''),
        (''mu1'', 0, ''max''), (''mu1'', 0.3, ''min''),
        (''mu2'', 0, ''min''), (''mu2'', 0.3, ''max''),
        (''mu3'', 0, ''min''), (''mu3'', 0.3, ''max'')]"
proof -
  have "\<exists>results w'. analyzeSensitivity new_Parameters (Some recordProgress) exampleWorld = Some (results, w') \<and>
     searchRequests (trace w') = searchRequests (trace exampleWorld) @
       concat (map (\<lambda>param.
                 if virtuous param
                 then [(param_key param, 0, ''max''), (param_key param, 0.3, ''min'')]
                 else [(param_key param, 0, ''min''), (param_key param, 0.3, ''max'')])
               parametersToAnalyze)"
  proof (rule sweep_pairs_extrema_with_classification)
    fix f k j t w0
    assume "Some recordProgress = Some f"
    then show "searchRequests (trace (f k j t w0)) = searchRequests (trace w0)"
      by (auto simp: searchRequests_def recordProgress_milestones requestsOf_append)
  qed
  then show ?thesis
    by (simp add: parametersToAnalyze_def exampleWorld_def searchRequests_def milestones_def)
qed

lemma recorded_sweep_milestones:
  "\<exists>res w'. analyzeSensitivity baseParams (Some recordProgress) w = Some (res, w') \<and>
     milestones (trace w') = milestones (trace w) @ sweepMilestones 7 0 parametersToAnalyze"
proof -
  have "\<exists>res w'. analyzeSensitivity baseParams (Some recordProgress) w = Some (res, w') \<and>
       id (milestones (trace w')) =
         id (milestones (trace w)) @ id (sweepMilestones 7 0 parametersToAnalyze)"
  proof (rule analyzeSensitivity_trace)
    show "id (xs @ ys) = id xs @ id ys" for xs ys :: "milestone list" by simp
    show "id (milestones (trace (f k j t w0))) =
          id (milestones (trace w0)) @ id [CallbackInvoked k j t]"
      if "Some recordProgress = Some f" for f k j t w0
      using that by (auto simp: recordProgress_milestones)
    show "id [CallbackInvoked k j t] = []" if "Some recordProgress = None" for k j t
      using that by simp
  qed
  then show ?thesis by simp
qed

text \<open>
  C9, as amended. \<open>analyzeSensitivity\<close> invokes the supplied progress callback once per
  tunable parameter, in sweep order, with the parameter's name, its 1-based position in
  the sweep and the total count 7; each invocation comes before the two searches of
  that parameter, so after the searches of the parameters before it.
\<close>

theorem callback_precedes_searches:
  "\<exists>results w'. analyzeSensitivity baseParams (Some recordProgress) w = Some (results, w') \<and>
     milestones (trace w') = milestones (trace w) @
       [CallbackInvoked ''beta1'' 1 7,
        SearchStarted ''beta1'' 0 ''max'', SearchFinished,
        SearchStarted ''beta1'' 0.3 ''min'', SearchFinished,
        CallbackInvoked ''beta2'' 2 7,
        SearchStarted ''beta2'' 0 ''min'', SearchFinished,
        SearchStarted ''beta2'' 0.3 ''max'', SearchFinished,
        CallbackInvoked ''beta3'' 3 7,
        SearchStarted ''beta3'' 0 ''max'', SearchFinished,
        SearchStarted ''beta3'' 0.3 ''min'', SearchFinished,
        CallbackInvoked ''beta4'' 4 7,
        SearchStarted ''beta4'' 0 ''min'', SearchFinished,
        SearchStarted ''beta4'' 0.3 ''max'', SearchFinished,
        CallbackInvoked ''mu1'' 5 7,
        SearchStarted ''mu1'' 0 ''max'', SearchFinished,
        SearchStarted ''mu1'' 0.3 ''min'', SearchFinished,
        CallbackInvoked ''mu2'' 6 7,
        SearchStarted ''mu2'' 0 ''min'', SearchFinished,
        SearchStarted ''mu2'' 0.3 ''max'', SearchFinished,
        CallbackInvoked ''mu3'' 7 7,
        SearchStarted ''mu3'' 0 ''min'', SearchFinished,
        SearchStarted ''mu3'' 0.3 ''max'', SearchFinished]"
  using recorded_sweep_milestones [of baseParams w] by (simp add: sweep_explicit)

text \<open>
  C9 as stated fails: the callback is not invoked after a parameter's pair of searches.
  On the default parameters the first milestone of the analysis is the invocation for
  \<open>beta1\<close> with index 1, when no search has finished; the seven invocations see 0, 2, ...,
  12 finished searches, not 2, 4, ..., 14.
\<close>

theorem callback_not_after_searches:
  "hd (milestones (trace (snd (the (analyzeSensitivity new_Parameters (Some recordProgress) exampleWorld))))) =
     CallbackInvoked ''beta1'' 1 7 \<and>
   finishedBeforeCallbacks 0
     (milestones (trace (snd (the (analyzeSensitivity new_Parameters (Some recordProgress) exampleWorld))))) =
     [0, 2, 4, 6, 8, 10, 12]"
proof -
  obtain results w' where a: "analyzeSensitivity new_Parameters (Some recordProgress) exampleWorld = Some (results, w')"
    and m: "milestones (trace w') = milestones (trace exampleWorld) @ sweepMilestones 7 0 parametersToAnalyze"
    using recorded_sweep_milestones [of new_Parameters exampleWorld] by auto
  have e: "milestones (trace exampleWorld) = []" by (simp add: exampleWorld_def milestones_def)
  show ?thesis
    by (simp add: a m e sweep_explicit)
qed

section \<open>Setting a parameter by name\<close>

text \<open>
  \<open>setParameter\<close> never touches anything but the parameters object; a name that is
  neither one of the 30 fields, nor an own property added earlier, nor inherited, changes
  nothing at all; and each of the 30 field names sets that field and no other.
\<close>

lemma setParameter_unknown_name:
  "\<not> has_property param (sim_parameters sim) \<Longrightarrow> setParameter sim param v = sim"
  by (simp add: setParameter_def)

lemma setParameter_keeps_rest:
  "sim_numAgents (setParameter sim param v) = sim_numAgents sim \<and>
   sim_agents (setParameter sim param v) = sim_agents sim \<and>
   sim_society (setParameter sim param v) = sim_society sim \<and>
   sim_time (setParameter sim param v) = sim_time sim \<and>
   sim_dt (setParameter sim param v) = sim_dt sim \<and>
   sim_running (setParameter sim param v) = sim_running sim"
  by (simp add: setParameter_def)

lemma setParameter_field:
  "sim_parameters (setParameter sim ''beta1'' v) = (sim_parameters sim)\<lparr> beta1 := v \<rparr>"
  "sim_parameters (setParameter sim ''beta2'' v) = (sim_parameters sim)\<lparr> beta2 := v \<rparr>"
  "sim_parameters (setParameter sim ''beta3'' v) = (sim_parameters sim)\<lparr> beta3 := v \<rparr>"
  "sim_parameters (setParameter sim ''beta4'' v) = (sim_parameters sim)\<lparr> beta4 := v \<rparr>"
  "sim_parameters (setParameter sim ''gamma1'' v) = (sim_parameters sim)\<lparr> gamma1 := v \<rparr>"
  "sim_parameters (setParameter sim ''gamma2'' v) = (sim_parameters sim)\<lparr> gamma2 := v \<rparr>"
  "sim_parameters (setParameter sim ''gamma3'' v) = (sim_parameters sim)\<lparr> gamma3 := v \<rparr>"
  "sim_parameters (setParameter sim ''gamma4'' v) = (sim_parameters sim)\<lparr> gamma4 := v \<rparr>"
  "sim_parameters (setParameter sim ''delta1'' v) = (sim_parameters sim)\<lparr> delta1 := v \<rparr>"
  "sim_parameters (setParameter sim ''delta2'' v) = (sim_parameters sim)\<lparr> delta2 := v \<rparr>"
  "sim_parameters (setParameter sim ''delta3'' v) = (sim_parameters sim)\<lparr> delta3 := v \<rparr>"
  "sim_parameters (setParameter sim ''delta4'' v) = (sim_parameters sim)\<lparr> delta4 := v \<rparr>"
  "sim_parameters (setParameter sim ''delta5'' v) = (sim_parameters sim)\<lparr> delta5 := v \<rparr>"
  "sim_parameters (setParameter sim ''eta1'' v) = (sim_parameters sim)\<lparr> eta1 := v \<rparr>"
  "sim_parameters (setParameter sim ''eta2'' v) = (sim_parameters sim)\<lparr> eta2 := v \<rparr>"
  "sim_parameters (setParameter sim ''eta3'' v) = (sim_parameters sim)\<lparr> eta3 := v \<rparr>"
  "sim_parameters (setParameter sim ''lambda1'' v) = (sim_parameters sim)\<lparr> lambda1 := v \<rparr>"
  "sim_parameters (setParameter sim ''lambda2'' v) = (sim_parameters sim)\<lparr> lambda2 := v \<rparr>"
  "sim_parameters (setParameter sim ''lambda3'' v) = (sim_parameters sim)\<lparr> lambda3 := v \<rparr>"
  "sim_parameters (setParameter sim ''lambda4'' v) = (sim_parameters sim)\<lparr> lambda4 := v \<rparr>"
  "sim_parameters (setParameter sim ''mu1'' v) = (sim_parameters sim)\<lparr> mu1 := v \<rparr>"
  "sim_parameters (setParameter sim ''mu2'' v) = (sim_parameters sim)\<lparr> mu2 := v \<rparr>"
  "sim_parameters (setParameter sim ''mu3'' v) = (sim_parameters sim)\<lparr> mu3 := v \<rparr>"
  "sim_parameters (setParameter sim ''nu1'' v) = (sim_parameters sim)\<lparr> nu1 := v \<rparr>"
  "sim_parameters (setParameter sim ''nu2'' v) = (sim_parameters sim)\<lparr> nu2 := v \<rparr>"
  "sim_parameters (setParameter sim ''nu3'' v) = (sim_parameters sim)\<lparr> nu3 := v \<rparr>"
  "sim_parameters (setParameter sim ''rho1'' v) = (sim_parameters sim)\<lparr> rho1 := v \<rparr>"
  "sim_parameters (setParameter sim ''rho2'' v) = (sim_parameters sim)\<lparr> rho2 := v \<rparr>"
  "sim_parameters (setParameter sim ''rho3'' v) = (sim_parameters sim)\<lparr> rho3 := v \<rparr>"
  "sim_parameters (setParameter sim ''rho4'' v) = (sim_parameters sim)\<lparr> rho4 := v \<rparr>"
  by (simp_all add: setParameter_def has_property_def assign_property_def Parameters_fields_def)

lemma setParameter_unrecognized_plain_name:
  "other_props (sim_parameters sim) ''alpha'' = None \<Longrightarrow> setParameter sim ''alpha'' v = sim"
  by (simp add: setParameter_def has_property_def Parameters_fields_def Object_prototype_names_def)

text \<open>
  C8 does not hold of the code for the names that a \<open>Parameters\<close> object inherits from
  \<open>Object.prototype\<close>. The guard \<open>param in this.parameters\<close> follows the prototype chain, so
  for \<open>toString\<close>, which is not one of the fields, the assignment is carried out: on a
  freshly constructed simulator, \<open>setParameter('toString', 1)\<close> gives the parameters object
  an own property \<open>toString\<close> with value 1, and the simulator is no longer what it was.
\<close>

theorem setParameter_inherited_name:
  "\<not> List.member Parameters_fields ''toString'' \<and>
   other_props (sim_parameters (fst (new_Simulator numAgents w))) ''toString'' = None \<and>
   other_props (sim_parameters (setParameter (fst (new_Simulator numAgents w)) ''toString'' 1))
     ''toString'' = Some 1 \<and>
   setParameter (fst (new_Simulator numAgents w)) ''toString'' 1 \<noteq> fst (new_Simulator numAgents w)"
proof -
  define sim where "sim = fst (new_Simulator numAgents w)"
  have p: "sim_parameters sim = new_Parameters"
    by (simp add: sim_def new_Simulator_def Let_def case_prod_beta)
  have a: "\<not> List.member Parameters_fields ''toString''"
    by (simp add: Parameters_fields_def)
  have b: "other_props (sim_parameters sim) ''toString'' = None"
    by (simp add: p new_Parameters_def)
  have c: "other_props (sim_parameters (setParameter sim ''toString'' 1)) ''toString'' = Some 1"
    by (simp add: setParameter_def has_property_def Object_prototype_names_def
        assign_property_def)
  have "setParameter sim ''toString'' 1 \<noteq> sim"
    using b c by auto
  with a b c show ?thesis by (simp add: sim_def)
qed

end
